theory Spec2Isabelle
  imports Complex_Main "HOL-Library.AList" "HOL-Library.Sublist"
begin

section \<open>Python values used by the sandbox package\<close>

subsection \<open>Strings\<close>

text \<open>
  A Python \<open>str\<close> is modelled as a \<^typ>\<open>string\<close>: a list of characters, one per code
  point, over the 8-bit character set of HOL. \<open>len\<close> is \<^const>\<open>length\<close>, slicing
  \<open>s[:n]\<close> is \<^const>\<open>take\<close>, concatenation and f-string interpolation of a \<open>str\<close>
  are \<open>@\<close>.
\<close>

definition NL :: string where
  "NL = [CHR 0x0A]"

definition BSL :: string where
  "BSL = [CHR 0x5C]"

definition SQ :: string where
  "SQ = [CHR 0x27]"

text \<open>\<open>str.isspace\<close> on one character, for the code points below 256.\<close>

definition py_isspace :: "char \<Rightarrow> bool" where
  "py_isspace c = ((of_char c :: nat) \<in> {9, 10, 11, 12, 13, 28, 29, 30, 31, 32, 133, 160})"

text \<open>\<open>s.strip()\<close>: leading and trailing whitespace removed.\<close>

definition strip :: "string \<Rightarrow> string" where
  "strip s = rev (dropWhile py_isspace (rev (dropWhile py_isspace s)))"

text \<open>\<open>sep.join(parts)\<close>.\<close>

fun join :: "string \<Rightarrow> string list \<Rightarrow> string" where
  "join sep [] = []"
| "join sep [x] = x"
| "join sep (x # y # ys) = x @ sep @ join sep (y # ys)"

text \<open>\<open>a in b\<close> for two strings: \<open>a\<close> occurs in \<open>b\<close> as a contiguous substring.\<close>

fun py_in :: "string \<Rightarrow> string \<Rightarrow> bool" where
  "py_in a [] = (a = [])"
| "py_in a (c # cs) = (prefix a (c # cs) \<or> py_in a cs)"

text \<open>\<open>str(n)\<close> for an integer: decimal digits, with a minus sign when negative.\<close>

definition digit_char :: "nat \<Rightarrow> char" where
  "digit_char d = ''0123456789'' ! (d mod 10)"

fun str_of_nat :: "nat \<Rightarrow> string" where
  "str_of_nat n =
     (if n < 10 then [digit_char n] else str_of_nat (n div 10) @ [digit_char (n mod 10)])"

definition str_of_int :: "int \<Rightarrow> string" where
  "str_of_int i = (if i < 0 then ''-'' @ str_of_nat (nat (- i)) else str_of_nat (nat i))"

text \<open>
  A Python \<open>float\<close> is carried around but never computed with; its \<open>str\<close> is the
  interpreter's business and enters the model as a function.
\<close>

type_synonym py_float = real

subsection \<open>Exceptions\<close>

text \<open>
  An exception is its class and \<open>str(e)\<close>. Only subclasses of \<open>Exception\<close> are modelled.
  \<open>ImageNotFound\<close> and \<open>NotFound\<close> are subclasses of the docker client's
  \<open>DockerException\<close>; \<open>TimeoutExpired\<close> is \<open>subprocess.TimeoutExpired\<close>;
  \<open>OtherException\<close> stands for every class that none of the
  handlers of the package names.
\<close>

datatype exn_class =
    ValueError | TypeError | FileNotFoundError | ImportError | RuntimeError | RecursionError
  | TimeoutExpired
  | ImageNotFound | NotFound | DockerException | OtherException

datatype exn = Exn exn_class string

fun exn_str :: "exn \<Rightarrow> string" where
  "exn_str (Exn c m) = m"

fun exn_cls :: "exn \<Rightarrow> exn_class" where
  "exn_cls (Exn c m) = c"

text \<open>\<open>isinstance(e, (ImageNotFound, NotFound))\<close> and \<open>isinstance(e, DockerException)\<close>.\<close>

definition is_not_found :: "exn \<Rightarrow> bool" where
  "is_not_found e = (exn_cls e = ImageNotFound \<or> exn_cls e = NotFound)"

definition is_docker_exception :: "exn \<Rightarrow> bool" where
  "is_docker_exception e = (is_not_found e \<or> exn_cls e = DockerException)"

subsection \<open>JSON values\<close>

text \<open>
  What \<open>json.loads\<close> returns. A float keeps its lexeme; a dict is an association list
  in insertion order with distinct keys, updated with \<^const>\<open>AList.update\<close>.
\<close>

datatype json =
    JNull | JBool bool | JInt int | JFloat string | JString string
  | JArray "json list" | JObject "(string \<times> json) list"

text \<open>\<open>type(v).__name__\<close>.\<close>

fun type_name :: "json \<Rightarrow> string" where
  "type_name JNull = ''NoneType''"
| "type_name (JBool b) = ''bool''"
| "type_name (JInt i) = ''int''"
| "type_name (JFloat f) = ''float''"
| "type_name (JString s) = ''str''"
| "type_name (JArray xs) = ''list''"
| "type_name (JObject kvs) = ''dict''"

section \<open>Dependency header (\<open>Sandbox._format_dependencies\<close>)\<close>

text \<open>
  \<open>Dependencies = dict[str, str | DependencyInfo]\<close>, where \<open>DependencyInfo\<close> is a
  \<open>TypedDict(total=False)\<close> with the optional keys \<open>version\<close> and \<open>extras\<close>.
  \<open>DepOther\<close> is a value of any other type, for which the source has a last branch.
\<close>

datatype dep_value =
    DepStr string
  | DepInfo "string option" "string list option"
  | DepOther

type_synonym dependencies = "(string \<times> dep_value) list"

definition quoted :: "string \<Rightarrow> string" where
  \<open>quoted s = ''"'' @ s @ ''"''\<close>

text \<open>The string one iteration of the loop appends to \<open>dep_lines\<close>.\<close>

fun dep_line :: "string \<Rightarrow> dep_value \<Rightarrow> string" where
  "dep_line key (DepStr v) = (if v = ''*'' then quoted key else quoted (key @ v))"
| "dep_line key (DepInfo ver ex) =
     (let version = (case ver of None \<Rightarrow> [] | Some v \<Rightarrow> v);
          extras = (case ex of None \<Rightarrow> [] | Some es \<Rightarrow> es);
          specifier = key;
          specifier = (if extras \<noteq> [] then specifier @ ''['' @ join '','' extras @ '']''
                       else specifier);
          specifier = (if version \<noteq> [] then specifier @ ''=='' @ version else specifier)
      in quoted specifier)"
| "dep_line key DepOther = quoted key"

definition dep_sep :: string where
  "dep_sep = '','' @ NL @ ''#    ''"

definition format_dependencies :: "dependencies \<Rightarrow> string" where
  "format_dependencies deps =
     join dep_sep (fold (\<lambda>(key, v) dep_lines. dep_lines @ [dep_line key v]) deps [])"

text \<open>
  The specifier shapes as the specification lists them: \<open>name\<close>, \<open>name<constraint>\<close>,
  \<open>name==version\<close>, \<open>name[extra1,extra2]==version\<close>, each part of the last one
  present only when the record has it.
\<close>

datatype specifier_shape =
    Bare string
  | Constrained string string
  | Versioned string string
  | WithExtras string "string list"
  | WithExtrasVersioned string "string list" string

fun render_shape :: "specifier_shape \<Rightarrow> string" where
  "render_shape (Bare name) = name"
| "render_shape (Constrained name c) = name @ c"
| "render_shape (Versioned name v) = name @ ''=='' @ v"
| "render_shape (WithExtras name es) = name @ ''['' @ join '','' es @ '']''"
| "render_shape (WithExtrasVersioned name es v) =
     name @ ''['' @ join '','' es @ '']'' @ ''=='' @ v"

fun has_text :: "string option \<Rightarrow> bool" where
  "has_text None = False"
| "has_text (Some s) = (s \<noteq> [])"

fun has_items :: "string list option \<Rightarrow> bool" where
  "has_items None = False"
| "has_items (Some es) = (es \<noteq> [])"

fun shape_of :: "string \<Rightarrow> dep_value \<Rightarrow> specifier_shape" where
  "shape_of name (DepStr c) = (if c = ''*'' then Bare name else Constrained name c)"
| "shape_of name (DepInfo ver ex) =
     (if has_items ex \<and> has_text ver then WithExtrasVersioned name (the ex) (the ver)
      else if has_items ex then WithExtras name (the ex)
      else if has_text ver then Versioned name (the ver)
      else Bare name)"
| "shape_of name DepOther = Bare name"

section \<open>The Python library\<close>

text \<open>
  The functions of the Python library the package calls, as parameters of the model:
  \<open>json.loads\<close> (a decoded value, a \<open>JSONDecodeError\<close> with its \<open>msg\<close>, or any other
  exception), \<open>json.dumps(inputs, ensure_ascii=False)\<close> (the text, or the message of its
  \<open>TypeError\<close>), \<open>base64.b64encode\<close> of the UTF-8 bytes of a text,
  \<open>traceback.format_exc()\<close> while an exception is handled, and \<open>str\<close> of a float.
\<close>

datatype load_result = Decoded json | DecodeError string | LoadRaised exn

record 'i pylib =
  loads :: "string \<Rightarrow> load_result"
  dumps :: "'i \<Rightarrow> string + string"
  b64encode :: "string \<Rightarrow> string"
  format_exc :: "exn \<Rightarrow> string"
  float_str :: "py_float \<Rightarrow> string"

section \<open>Outcomes and runners\<close>

text \<open>
  \<open>Result\<close> is a \<open>TypedDict(total=False)\<close>. A runner's result holds at least
  \<open>stdout\<close> and \<open>stderr\<close>; \<open>result\<close> is \<open>None\<close> here while the key is absent;
  \<open>error\<close> is read with \<open>.get("error")\<close> only, which gives \<open>None\<close> for an absent
  key and for the value \<open>None\<close> alike.
\<close>

record py_result =
  stdout :: string
  stderr :: string
  result :: "json option"
  error :: "string option"

text \<open>The literal \<open>{"stdout": "", "stderr": "", "error": None}\<close> both runners start from.\<close>

definition empty_result :: py_result where
  "empty_result = \<lparr>stdout = [], stderr = [], result = None, error = None\<rparr>"

text \<open>\<open>Result(stdout="", stderr=msg, error=msg)\<close>.\<close>

definition error_result :: "string \<Rightarrow> py_result" where
  "error_result msg = \<lparr>stdout = [], stderr = msg, result = None, error = Some msg\<rparr>"

subsection \<open>Environment filter\<close>

type_synonym env = "(string \<times> string) list"

definition DEFAULT_ALLOWED_ENV_VARS :: "string set" where
  "DEFAULT_ALLOWED_ENV_VARS =
     {''PATH'', ''HOME'', ''USER'', ''TMPDIR'', ''TEMP'', ''TMP'', ''LANG'', ''LC_ALL''}"

definition DEFAULT_ALLOWED_ENV_VARS_DOCKER :: "string set" where
  "DEFAULT_ALLOWED_ENV_VARS_DOCKER = {''LANG'', ''LC_ALL''}"

text \<open>The loop both constructors run over the caller's \<open>environment\<close>.\<close>

definition filter_env :: "env option \<Rightarrow> string set \<Rightarrow> env" where
  "filter_env environment allowed_env_vars =
     (case environment of
        None \<Rightarrow> []
      | Some e \<Rightarrow>
          if e = [] then []
          else fold (\<lambda>(key, v) filtered_env.
                       if key \<in> allowed_env_vars then AList.update key v filtered_env
                       else filtered_env) e [])"

text \<open>
  \<open>if k in allowed_env_vars and k not in filtered_env:
  filtered_env[k] = os.environ.get(k, "")\<close>, for \<open>PATH\<close>, \<open>HOME\<close> and \<open>USER\<close>.
\<close>

definition inject_default :: "(string \<rightharpoonup> string) \<Rightarrow> string set \<Rightarrow> string \<Rightarrow> env \<Rightarrow> env" where
  "inject_default os_environ allowed_env_vars k filtered_env =
     (if k \<in> allowed_env_vars \<and> map_of filtered_env k = None
      then AList.update k (case os_environ k of None \<Rightarrow> [] | Some v \<Rightarrow> v) filtered_env
      else filtered_env)"

text \<open>One iteration of the loop over \<open>TMPDIR\<close>, \<open>TEMP\<close> and \<open>TMP\<close>.\<close>

definition inject_temp :: "(string \<rightharpoonup> string) \<Rightarrow> string set \<Rightarrow> string \<Rightarrow> env \<Rightarrow> env" where
  "inject_temp os_environ allowed_env_vars temp_var filtered_env =
     (if temp_var \<in> allowed_env_vars \<and> map_of filtered_env temp_var = None
         \<and> (case os_environ temp_var of None \<Rightarrow> False | Some v \<Rightarrow> v \<noteq> [])
      then AList.update temp_var (the (os_environ temp_var)) filtered_env
      else filtered_env)"

subsection \<open>Runner objects\<close>

record sandbox_runner =
  environment :: env
  timeout :: "py_float option"

record subprocess_runner = sandbox_runner +
  uv_path :: string
  cpu_time_limit :: "int option"
  memory_limit :: "int option"

record docker_runner = sandbox_runner +
  image_name :: string
  allow_network :: bool

text \<open>
  \<open>SandboxRunner.__init__\<close>: the dict comprehension over the items of the filtered
  environment.
\<close>

definition base_environment :: "env \<Rightarrow> env" where
  "base_environment e = fold (\<lambda>(k, v) d. AList.update k v d) e []"

text \<open>
  \<open>SubprocessSandboxRunner.__init__\<close>. \<open>which_uv\<close> is what \<open>shutil.which("uv")\<close>
  returns, \<open>os_environ\<close> the environment of the calling process.
\<close>

definition SubprocessSandboxRunner_init ::
  "string option \<Rightarrow> (string \<rightharpoonup> string) \<Rightarrow> env option \<Rightarrow> py_float option \<Rightarrow> string set option
     \<Rightarrow> int option \<Rightarrow> int option \<Rightarrow> exn + subprocess_runner" where
  "SubprocessSandboxRunner_init which_uv os_environ env0 tmo allowed cpu mem =
     (if which_uv = None \<or> which_uv = Some []
      then Inl (Exn FileNotFoundError
                  (''The '' @ SQ @ ''uv'' @ SQ @ '' command was not found in the system PATH.''))
      else
        (let allowed_env_vars = (case allowed of None \<Rightarrow> DEFAULT_ALLOWED_ENV_VARS | Some a \<Rightarrow> a);
             filtered_env = filter_env env0 allowed_env_vars;
             filtered_env = inject_default os_environ allowed_env_vars ''PATH'' filtered_env;
             filtered_env = inject_default os_environ allowed_env_vars ''HOME'' filtered_env;
             filtered_env = inject_default os_environ allowed_env_vars ''USER'' filtered_env;
             filtered_env = fold (inject_temp os_environ allowed_env_vars)
                              [''TMPDIR'', ''TEMP'', ''TMP''] filtered_env
         in Inr \<lparr>environment = base_environment filtered_env, timeout = tmo,
                  uv_path = the which_uv, cpu_time_limit = cpu, memory_limit = mem\<rparr>))"

text \<open>\<open>DockerSandboxRunner.__init__\<close>.\<close>

definition DockerSandboxRunner_init ::
  "string \<Rightarrow> env option \<Rightarrow> py_float option \<Rightarrow> bool \<Rightarrow> string set option \<Rightarrow> docker_runner" where
  "DockerSandboxRunner_init img env0 tmo allow_net allowed =
     (let allowed_env_vars =
            (case allowed of None \<Rightarrow> DEFAULT_ALLOWED_ENV_VARS_DOCKER | Some a \<Rightarrow> a);
          filtered_env = filter_env env0 allowed_env_vars
      in \<lparr>environment = base_environment filtered_env, timeout = tmo,
           image_name = img, allow_network = allow_net\<rparr>)"

subsection \<open>Process backend (\<open>SubprocessSandboxRunner.execute_script\<close>)\<close>

text \<open>
  What the operating system answers: writing the temporary file raises or not, and
  \<open>subprocess.run\<close> of the command either completes with a return code and the two
  captured streams or raises.
\<close>

datatype proc_outcome = Completed int string string | Raised exn

record host =
  tmp_write :: "string \<Rightarrow> exn option"
  uv_run :: "string \<Rightarrow> env \<Rightarrow> py_float option \<Rightarrow> string \<Rightarrow> proc_outcome"

text \<open>\<open>{self.timeout}\<close> inside an f-string.\<close>

definition timeout_text :: "'i pylib \<Rightarrow> py_float option \<Rightarrow> string" where
  "timeout_text lib t = (case t of None \<Rightarrow> ''None'' | Some x \<Rightarrow> float_str lib x)"

definition execute_script_subprocess ::
  "'i pylib \<Rightarrow> host \<Rightarrow> subprocess_runner \<Rightarrow> string \<Rightarrow> exn + py_result" where
  "execute_script_subprocess lib h rn script_content =
     (let result0 = empty_result
      in case tmp_write h script_content of
           Some e \<Rightarrow> Inl e
         | None \<Rightarrow>
             (case uv_run h (uv_path rn) (environment rn) (timeout rn) script_content of
                Completed returncode out err \<Rightarrow>
                  (let r = result0\<lparr>stdout := out, stderr := err\<rparr>
                   in Inr (if returncode \<noteq> 0
                           then r\<lparr>error := Some (''Subprocess failed (exit code ''
                                                   @ str_of_int returncode @ ''). Stderr: ''
                                                   @ strip err)\<rparr>
                           else r))
              | Raised e \<Rightarrow>
                  if exn_cls e = TimeoutExpired
                  then Inr (result0\<lparr>error := Some (''Subprocess timed out after ''
                                                    @ timeout_text lib (timeout rn)
                                                    @ '' seconds.''),
                                     stderr := stderr result0 @ NL
                                               @ ''[Runner Error] TimeoutExpired''\<rparr>)
                  else if exn_cls e = FileNotFoundError
                  then Inl (Exn FileNotFoundError (SQ @ ''uv'' @ SQ @ '' command path invalid.''))
                  else Inr (result0\<lparr>error := Some (''Subprocess runner unexpected error: ''
                                                    @ exn_str e),
                                     stderr := stderr result0 @ NL @ ''[Runner Error] ''
                                               @ exn_str e\<rparr>)))"

subsection \<open>Container backend (\<open>DockerSandboxRunner.execute_script\<close>)\<close>

text \<open>
  What the docker client answers at each call of \<open>execute_script\<close>, in the order of the
  calls. \<open>containers_run\<close> gets the image, the environment and the network mode and
  answers whether the container object is truthy; \<open>exec_run\<close> answers the exit code
  and the two demultiplexed streams, already decoded (\<open>None\<close> for no bytes).
\<close>

record daemon =
  from_env :: "exn option"
  ping :: "exn option"
  containers_run :: "string \<Rightarrow> env \<Rightarrow> string option \<Rightarrow> exn + bool"
  put_archive :: "string \<Rightarrow> exn option"
  exec_run :: "string \<Rightarrow> exn + (int \<times> string option \<times> string option)"

text \<open>The three \<open>except\<close> clauses, in their order.\<close>

definition docker_handler :: "py_result \<Rightarrow> exn \<Rightarrow> exn + py_result" where
  "docker_handler r e =
     (if is_not_found e
      then Inl (Exn RuntimeError (''Docker image/container error: '' @ exn_str e))
      else if is_docker_exception e
      then Inl (Exn RuntimeError (''Docker operation failed: '' @ exn_str e))
      else Inr (r\<lparr>error := Some (''Docker runner unexpected error: '' @ exn_str e),
                  stderr := stderr r @ NL @ ''[Runner Error] '' @ exn_str e\<rparr>))"

definition execute_script_docker :: "daemon \<Rightarrow> docker_runner \<Rightarrow> string \<Rightarrow> exn + py_result" where
  "execute_script_docker d rn script_content =
     (let result0 = empty_result;
          network_mode = (if \<not> allow_network rn then Some ''none'' else None)
      in case from_env d of
           Some e \<Rightarrow> docker_handler result0 e
         | None \<Rightarrow>
        (case ping d of
           Some e \<Rightarrow> docker_handler result0 e
         | None \<Rightarrow>
        (case containers_run d (image_name rn) (environment rn) network_mode of
           Inl e \<Rightarrow> docker_handler result0 e
         | Inr container \<Rightarrow>
             if \<not> container
             then docker_handler result0 (Exn RuntimeError ''Failed to create Docker container.'')
             else
        (case put_archive d script_content of
           Some e \<Rightarrow> docker_handler result0 e
         | None \<Rightarrow>
        (case exec_run d script_content of
           Inl e \<Rightarrow> docker_handler result0 e
         | Inr (exit_code, stdout_bytes, stderr_bytes) \<Rightarrow>
             (let r = result0\<lparr>stdout := (case stdout_bytes of None \<Rightarrow> [] | Some s \<Rightarrow> s),
                              stderr := (case stderr_bytes of None \<Rightarrow> [] | Some s \<Rightarrow> s)\<rparr>
              in Inr (if exit_code \<noteq> 0
                      then r\<lparr>error := Some (''Docker execution failed (exit code ''
                                              @ str_of_int exit_code @ ''). Stderr: ''
                                              @ strip (stderr r))\<rparr>
                      else r)))))))"

section \<open>The \<open>Sandbox\<close> object\<close>

datatype runner = SubprocessRunner subprocess_runner | DockerRunner docker_runner

record sandbox =
  dependencies :: dependencies
  settings :: "(string \<times> json) list"
  runner :: runner

text \<open>
  \<open>runner_kwargs\<close>: the keys that overwrite an entry of \<open>runner_init_args\<close>, and
  \<open>allow_network\<close>, which the constructor of the process backend does not accept.
  Other keys reach no part of the model.
\<close>

record runner_kwargs =
  kw_environment :: "env option option"
  kw_timeout :: "py_float option option"
  kw_allowed_env_vars :: "string set option option"
  kw_allow_network :: "bool option"

definition no_kwargs :: runner_kwargs where
  "no_kwargs = \<lparr>kw_environment = None, kw_timeout = None, kw_allowed_env_vars = None,
                kw_allow_network = None\<rparr>"

definition DEFAULT_IMAGE :: string where
  "DEFAULT_IMAGE = ''ghcr.io/astral-sh/uv:python3.10-alpine''"

text \<open>The two \<open>except\<close> clauses around the construction of the runner.\<close>

definition init_failure :: "string \<Rightarrow> exn \<Rightarrow> exn" where
  "init_failure runner_type e =
     (if exn_cls e = ImportError \<or> exn_cls e = FileNotFoundError
      then Exn (exn_cls e) (''Failed to init runner '' @ SQ @ runner_type @ SQ @ '': '' @ exn_str e)
      else Exn RuntimeError
             (''Failed to initialize runner '' @ SQ @ runner_type @ SQ @ '': '' @ exn_str e))"

definition Sandbox_init ::
  "string option \<Rightarrow> (string \<rightharpoonup> string) \<Rightarrow> dependencies option \<Rightarrow> (string \<times> json) list option
     \<Rightarrow> string \<Rightarrow> env option \<Rightarrow> py_float option \<Rightarrow> bool \<Rightarrow> string list option
     \<Rightarrow> runner_kwargs option \<Rightarrow> exn + sandbox" where
  "Sandbox_init which_uv os_environ deps sets runner_type env0 tmo allow_net allowed_list rkw =
     (if runner_type \<noteq> ''subprocess'' \<and> runner_type \<noteq> ''docker''
      then Inl (Exn ValueError (''Unknown runner_type '' @ SQ @ runner_type @ SQ
                                @ ''. Use: ['subprocess', 'docker']''))
      else
        (let deps1 = (case deps of None \<Rightarrow> [] | Some d \<Rightarrow> d);
             sets1 = (case sets of None \<Rightarrow> [] | Some s \<Rightarrow> s);
             kw = (case rkw of None \<Rightarrow> no_kwargs | Some k \<Rightarrow> k);
             final_allowed_env_set =
               (case allowed_list of
                  Some l \<Rightarrow> set l
                | None \<Rightarrow> if runner_type = ''docker'' then DEFAULT_ALLOWED_ENV_VARS_DOCKER
                          else DEFAULT_ALLOWED_ENV_VARS);
             arg_environment = (case kw_environment kw of None \<Rightarrow> env0 | Some e \<Rightarrow> e);
             arg_timeout = (case kw_timeout kw of None \<Rightarrow> tmo | Some t \<Rightarrow> t);
             arg_allowed = (case kw_allowed_env_vars kw of
                              None \<Rightarrow> Some final_allowed_env_set | Some a \<Rightarrow> a);
             arg_allow_network =
               (if runner_type = ''docker'' \<and> kw_allow_network kw = None then Some allow_net
                else kw_allow_network kw)
         in if runner_type = ''subprocess''
            then
              (if arg_allow_network \<noteq> None
               then Inl (init_failure runner_type
                          (Exn TypeError (''SubprocessSandboxRunner.__init__() got an unexpected ''
                                          @ ''keyword argument '' @ SQ @ ''allow_network'' @ SQ)))
               else case SubprocessSandboxRunner_init which_uv os_environ arg_environment
                           arg_timeout arg_allowed None None of
                      Inl e \<Rightarrow> Inl (init_failure runner_type e)
                    | Inr r \<Rightarrow> Inr \<lparr>dependencies = deps1, settings = sets1,
                                     runner = SubprocessRunner r\<rparr>)
            else Inr \<lparr>dependencies = deps1, settings = sets1,
                      runner = DockerRunner
                        (DockerSandboxRunner_init DEFAULT_IMAGE arg_environment arg_timeout
                           (the arg_allow_network) arg_allowed)\<rparr>))"

text \<open>\<open>self.runner.execute_script(script_content)\<close>.\<close>

definition runner_execute ::
  "'i pylib \<Rightarrow> host \<Rightarrow> daemon \<Rightarrow> runner \<Rightarrow> string \<Rightarrow> exn + py_result" where
  "runner_execute lib h d rn script_content =
     (case rn of
        SubprocessRunner r \<Rightarrow> execute_script_subprocess lib h r script_content
      | DockerRunner r \<Rightarrow> execute_script_docker d r script_content)"

section \<open>Script builder (\<open>Sandbox._generate_script\<close>, \<open>Sandbox._generate_function_script\<close>)\<close>

text \<open>A text as the list of its lines, each ended by a newline.\<close>

definition unlines :: "string list \<Rightarrow> string" where
  "unlines ls = concat (map (\<lambda>l. l @ NL) ls)"

text \<open>
  The header both templates share, after \<open>textwrap.dedent\<close> and with
  \<open>{dependencies_str}\<close> filled in.
\<close>

definition script_header :: "string \<Rightarrow> string list" where
  \<open>script_header dependencies_str =
     [''# /// script'',
      ''# requires-python = ">=3.10"'',
      ''# dependencies = ['',
      ''#    '' @ dependencies_str,
      ''# ]'',
      ''# ///'']\<close>

text \<open>
  The template of \<open>_generate_script\<close> opens with a newline (its literal has no line
  continuation after the quotes) and its last, blank line is emptied by \<open>dedent\<close>.
\<close>

definition generate_script :: "sandbox \<Rightarrow> string \<Rightarrow> string" where
  "generate_script self code =
     (let dependencies_str = format_dependencies (dependencies self)
      in NL @ unlines (script_header dependencies_str @ [code]))"

definition encode_inputs :: "'i pylib \<Rightarrow> 'i option \<Rightarrow> exn + string" where
  "encode_inputs lib inputs =
     (case inputs of
        None \<Rightarrow> Inr ''{}''
      | Some d \<Rightarrow>
          (case dumps lib d of
             Inr s \<Rightarrow> Inr s
           | Inl e \<Rightarrow> Inl (Exn ValueError (''Inputs dictionary is not JSON serializable: '' @ e))))"

text \<open>
  The trailer of the function-call template after \<open>dedent\<close> and \<open>str.format\<close>: doubled
  braces are single, and the template's \<open>\\n\<close> is a backslash followed by \<open>n\<close>.
\<close>

definition function_trailer :: "string \<Rightarrow> string \<Rightarrow> string list" where
  \<open>function_trailer b64_encoded_inputs exec_logic_placeholder =
     [''if __name__ == "__main__":'',
      ''    output_result = None'',
      ''    error_details = None'',
      ''    final_output_dict = {}'',
      [],
      ''    try:'',
      ''        inputs_dict = json.loads(base64.b64decode('' @ SQ @ b64_encoded_inputs @ SQ
         @ '').decode('utf-8'))'',
      ''        output_result = '' @ exec_logic_placeholder,
      ''    except Exception as e:'',
      ''         error_details = f"Error during execution: {e}'' @ BSL
         @ ''n{traceback.format_exc()}"'',
      ''         print(error_details, file=sys.stderr)'',
      ''         final_output_dict["error"] = error_details'',
      [],
      ''    if error_details is None:'',
      ''         try:'',
      ''             json.dumps(output_result, ensure_ascii=False)'',
      ''             final_output_dict["result"] = output_result'',
      ''         except TypeError as serialization_error:'',
      ''             err_msg = f"Function result not JSON serializable: {serialization_error}"'',
      ''             final_output_dict["error"] = err_msg'',
      ''             print(err_msg, file=sys.stderr)'',
      [],
      ''    try:'',
      ''         print(json.dumps(final_output_dict, ensure_ascii=False))'',
      ''    except Exception as final_dump_error:'',
      ''         err_fallback = {"error": f"Fatal: Could not dump final output: {final_dump_error}"}'',
      ''         print(json.dumps(err_fallback))'',
      ''         print(err_fallback["error"], file=sys.stderr)'']\<close>

definition generate_function_script ::
  "'i pylib \<Rightarrow> sandbox \<Rightarrow> string \<Rightarrow> string \<Rightarrow> 'i option \<Rightarrow> bool \<Rightarrow> exn + string" where
  "generate_function_script lib self code func_name inputs is_async =
     (let dependencies_str = format_dependencies (dependencies self)
      in case encode_inputs lib inputs of
           Inl e \<Rightarrow> Inl e
         | Inr encoded_input_json \<Rightarrow>
             (let b64_encoded_inputs = b64encode lib encoded_input_json;
                  import_lines = [''import json'', ''import sys'', ''import base64'',
                                  ''import traceback''];
                  import_lines = (if is_async then import_lines @ [''import asyncio'']
                                  else import_lines);
                  imports_code = join NL import_lines;
                  call_str = func_name @ ''(**inputs_dict)'';
                  exec_logic_placeholder =
                    (if is_async then ''asyncio.run('' @ call_str @ '')'' else call_str)
              in Inr (unlines (script_header dependencies_str
                               @ [[], imports_code, [], code, []]
                               @ function_trailer b64_encoded_inputs exec_logic_placeholder))))"

section \<open>Reference implementations of the library functions\<close>

subsection \<open>\<open>json.loads\<close>\<close>

text \<open>
  A decoder after the one of CPython 3.10 to 3.12 (\<open>json.decoder\<close>, \<open>json.scanner\<close>),
  used where a statement needs a concrete \<open>json.loads\<close>: it gives the decoded value or
  the \<open>msg\<close> of the \<open>JSONDecodeError\<close>. The recursion of the Python decoder is bounded
  by a counter that starts above twice the length of the text. An escape \<open>\\uXXXX\<close> of a
  code point above 255 has no character in this model and is refused.
\<close>

definition json_ws :: "char \<Rightarrow> bool" where
  "json_ws c = (c = CHR 0x20 \<or> c = CHR 0x09 \<or> c = CHR 0x0A \<or> c = CHR 0x0D)"

definition skip_ws :: "string \<Rightarrow> string" where
  "skip_ws s = dropWhile json_ws s"

datatype 'a parsed = Ok 'a string | Fail string | Deep

definition is_digit :: "char \<Rightarrow> bool" where
  "is_digit c = (48 \<le> (of_char c :: nat) \<and> (of_char c :: nat) \<le> 57)"

definition hex_value :: "char \<Rightarrow> nat option" where
  "hex_value c =
     (let n = (of_char c :: nat)
      in if 48 \<le> n \<and> n \<le> 57 then Some (n - 48)
         else if 65 \<le> n \<and> n \<le> 70 then Some (n - 55)
         else if 97 \<le> n \<and> n \<le> 102 then Some (n - 87)
         else None)"

definition hex4 :: "char \<Rightarrow> char \<Rightarrow> char \<Rightarrow> char \<Rightarrow> nat option" where
  "hex4 a b c d =
     (case (hex_value a, hex_value b, hex_value c, hex_value d) of
        (Some w, Some x, Some y, Some z) \<Rightarrow> Some (((w * 16 + x) * 16 + y) * 16 + z)
      | _ \<Rightarrow> None)"

definition unescape :: "char \<Rightarrow> char option" where
  "unescape e =
     (if e = CHR 0x22 then Some (CHR 0x22)
      else if e = CHR 0x5C then Some (CHR 0x5C)
      else if e = CHR ''/'' then Some (CHR ''/'')
      else if e = CHR ''b'' then Some (CHR 0x08)
      else if e = CHR ''f'' then Some (CHR 0x0C)
      else if e = CHR ''n'' then Some (CHR 0x0A)
      else if e = CHR ''r'' then Some (CHR 0x0D)
      else if e = CHR ''t'' then Some (CHR 0x09)
      else None)"

fun scanstring :: "string \<Rightarrow> string \<Rightarrow> string + string \<times> string" where
  "scanstring [] acc = Inl ''Unterminated string starting at''"
| "scanstring (c # cs) acc =
     (if c = CHR 0x22 then Inr (acc, cs)
      else if c = CHR 0x5C then
        (case cs of
           [] \<Rightarrow> Inl ''Unterminated string starting at''
         | e # cs1 \<Rightarrow>
             if e = CHR ''u'' then
               (case cs1 of
                  h1 # h2 # h3 # h4 # cs2 \<Rightarrow>
                    (case hex4 h1 h2 h3 h4 of
                       None \<Rightarrow> Inl (''Invalid '' @ BSL @ ''uXXXX escape'')
                     | Some n \<Rightarrow>
                         if n < 256 then scanstring cs2 (acc @ [char_of n])
                         else Inl ''code point outside the 8-bit character model'')
                | _ \<Rightarrow> Inl (''Invalid '' @ BSL @ ''uXXXX escape''))
             else
               (case unescape e of
                  None \<Rightarrow> Inl (''Invalid '' @ BSL @ ''escape'')
                | Some ch \<Rightarrow> scanstring cs1 (acc @ [ch])))
      else if (of_char c :: nat) < 32 then Inl ''Invalid control character at''
      else scanstring cs (acc @ [c]))"

definition digits_value :: "string \<Rightarrow> nat" where
  "digits_value ds = foldl (\<lambda>n c. 10 * n + ((of_char c :: nat) - 48)) 0 ds"

definition match_integer :: "string \<Rightarrow> (string \<times> string) option" where
  "match_integer s =
     (let sign = (if s \<noteq> [] \<and> hd s = CHR ''-'' then ''-'' else []);
          s1 = (if s \<noteq> [] \<and> hd s = CHR ''-'' then tl s else s)
      in case s1 of
           [] \<Rightarrow> None
         | c # t \<Rightarrow>
             if c = CHR ''0'' then Some (sign @ ''0'', t)
             else if is_digit c then Some (sign @ takeWhile is_digit s1, dropWhile is_digit s1)
             else None)"

definition match_frac :: "string \<Rightarrow> (string \<times> string) option" where
  "match_frac s =
     (case s of
        c # d # t \<Rightarrow>
          if c = CHR ''.'' \<and> is_digit d
          then Some (''.'' @ takeWhile is_digit (d # t), dropWhile is_digit (d # t))
          else None
      | _ \<Rightarrow> None)"

definition match_exp :: "string \<Rightarrow> (string \<times> string) option" where
  "match_exp s =
     (case s of
        [] \<Rightarrow> None
      | e # t \<Rightarrow>
          if e = CHR ''e'' \<or> e = CHR ''E'' then
            (let sg = (if t \<noteq> [] \<and> (hd t = CHR ''+'' \<or> hd t = CHR ''-'') then [hd t] else []);
                 t1 = drop (length sg) t
             in if t1 \<noteq> [] \<and> is_digit (hd t1)
                then Some (e # sg @ takeWhile is_digit t1, dropWhile is_digit t1)
                else None)
          else None)"

definition int_of_lexeme :: "string \<Rightarrow> int" where
  "int_of_lexeme l =
     (if l \<noteq> [] \<and> hd l = CHR ''-'' then - int (digits_value (tl l)) else int (digits_value l))"

definition match_number :: "string \<Rightarrow> (json \<times> string) option" where
  "match_number s =
     (case match_integer s of
        None \<Rightarrow> None
      | Some (integer, r1) \<Rightarrow>
          (let (frac, r2) = (case match_frac r1 of None \<Rightarrow> ([], r1) | Some p \<Rightarrow> p);
               (ex, r3) = (case match_exp r2 of None \<Rightarrow> ([], r2) | Some p \<Rightarrow> p)
           in if frac \<noteq> [] \<or> ex \<noteq> [] then Some (JFloat (integer @ frac @ ex), r3)
              else Some (JInt (int_of_lexeme integer), r3)))"

fun scan_once :: "nat \<Rightarrow> string \<Rightarrow> json parsed"
  and array_items :: "nat \<Rightarrow> string \<Rightarrow> json list \<Rightarrow> json parsed"
  and object_items :: "nat \<Rightarrow> string \<Rightarrow> (string \<times> json) list \<Rightarrow> json parsed" where
  "scan_once 0 s = Deep"
| "scan_once (Suc n) s =
     (case s of
        [] \<Rightarrow> Fail ''Expecting value''
      | c # cs \<Rightarrow>
          if c = CHR 0x22 then
            (case scanstring cs [] of
               Inr (str, rest) \<Rightarrow> Ok (JString str) rest
             | Inl m \<Rightarrow> Fail m)
          else if c = CHR ''{'' then
            (case skip_ws cs of
               [] \<Rightarrow> Fail ''Expecting property name enclosed in double quotes''
             | k # rest \<Rightarrow>
                 if k = CHR ''}'' then Ok (JObject []) rest
                 else if k = CHR 0x22 then object_items n rest []
                 else Fail ''Expecting property name enclosed in double quotes'')
          else if c = CHR ''['' then
            (case skip_ws cs of
               [] \<Rightarrow> array_items n [] []
             | k # rest \<Rightarrow>
                 if k = CHR '']'' then Ok (JArray []) rest
                 else array_items n (k # rest) [])
          else if prefix ''null'' s then Ok JNull (drop 4 s)
          else if prefix ''true'' s then Ok (JBool True) (drop 4 s)
          else if prefix ''false'' s then Ok (JBool False) (drop 5 s)
          else
            (case match_number s of
               Some (v, rest) \<Rightarrow> Ok v rest
             | None \<Rightarrow>
                 if prefix ''NaN'' s then Ok (JFloat ''NaN'') (drop 3 s)
                 else if prefix ''Infinity'' s then Ok (JFloat ''Infinity'') (drop 8 s)
                 else if prefix ''-Infinity'' s then Ok (JFloat ''-Infinity'') (drop 9 s)
                 else Fail ''Expecting value''))"
| "array_items 0 s acc = Deep"
| "array_items (Suc n) s acc =
     (case scan_once n s of
        Fail m \<Rightarrow> Fail m
      | Deep \<Rightarrow> Deep
      | Ok v rest \<Rightarrow>
          (case skip_ws rest of
             [] \<Rightarrow> Fail ''Expecting ',' delimiter''
           | c # r \<Rightarrow>
               if c = CHR '']'' then Ok (JArray (acc @ [v])) r
               else if c \<noteq> CHR '','' then Fail ''Expecting ',' delimiter''
               else array_items n (skip_ws r) (acc @ [v])))"
| "object_items 0 s pairs = Deep"
| "object_items (Suc n) s pairs =
     (case scanstring s [] of
        Inl m \<Rightarrow> Fail m
      | Inr (key, r) \<Rightarrow>
          (case skip_ws r of
             [] \<Rightarrow> Fail ''Expecting ':' delimiter''
           | c # r1 \<Rightarrow>
               if c \<noteq> CHR '':'' then Fail ''Expecting ':' delimiter''
               else
                 (case scan_once n (skip_ws r1) of
                    Fail m \<Rightarrow> Fail m
                  | Deep \<Rightarrow> Deep
                  | Ok v r2 \<Rightarrow>
                      (case skip_ws r2 of
                         [] \<Rightarrow> Fail ''Expecting ',' delimiter''
                       | c2 # r3 \<Rightarrow>
                           if c2 = CHR ''}'' then Ok (JObject (AList.update key v pairs)) r3
                           else if c2 \<noteq> CHR '','' then Fail ''Expecting ',' delimiter''
                           else
                             (case skip_ws r3 of
                                [] \<Rightarrow> Fail ''Expecting property name enclosed in double quotes''
                              | q # r4 \<Rightarrow>
                                  if q = CHR 0x22
                                  then object_items n r4 (AList.update key v pairs)
                                  else Fail ''Expecting property name enclosed in double quotes'')))))"

definition json_decode :: "string \<Rightarrow> load_result" where
  "json_decode s =
     (case scan_once (2 * length s + 2) (skip_ws s) of
        Ok v rest \<Rightarrow> if skip_ws rest = [] then Decoded v else DecodeError ''Extra data''
      | Fail m \<Rightarrow> DecodeError m
      | Deep \<Rightarrow> LoadRaised (Exn RecursionError ''maximum recursion depth exceeded''))"

subsection \<open>\<open>json.dumps(v, ensure_ascii=False)\<close> and \<open>base64.b64encode\<close>\<close>

definition hex_digit :: "nat \<Rightarrow> char" where
  "hex_digit n = ''0123456789abcdef'' ! (n mod 16)"

definition encode_char :: "char \<Rightarrow> string" where
  "encode_char c =
     (if c = CHR 0x22 then BSL @ [CHR 0x22]
      else if c = CHR 0x5C then BSL @ BSL
      else if c = CHR 0x0A then BSL @ ''n''
      else if c = CHR 0x0D then BSL @ ''r''
      else if c = CHR 0x09 then BSL @ ''t''
      else if c = CHR 0x08 then BSL @ ''b''
      else if c = CHR 0x0C then BSL @ ''f''
      else if (of_char c :: nat) < 32
      then BSL @ ''u00'' @ [hex_digit (of_char c div 16), hex_digit (of_char c)]
      else [c])"

definition encode_string :: "string \<Rightarrow> string" where
  "encode_string s = [CHR 0x22] @ concat (map encode_char s) @ [CHR 0x22]"

fun json_encode :: "json \<Rightarrow> string" where
  "json_encode JNull = ''null''"
| "json_encode (JBool b) = (if b then ''true'' else ''false'')"
| "json_encode (JInt i) = str_of_int i"
| "json_encode (JFloat f) = f"
| "json_encode (JString s) = encode_string s"
| "json_encode (JArray xs) = ''['' @ join '', '' (map json_encode xs) @ '']''"
| "json_encode (JObject kvs) =
     ''{'' @ join '', '' (map (\<lambda>(k, v). encode_string k @ '': '' @ json_encode v) kvs) @ ''}''"

text \<open>The UTF-8 bytes of a text over code points below 256.\<close>

definition utf8 :: "string \<Rightarrow> nat list" where
  "utf8 s = concat (map (\<lambda>c. let n = (of_char c :: nat)
                                in if n < 128 then [n] else [192 + n div 64, 128 + n mod 64]) s)"

definition b64_alphabet :: string where
  "b64_alphabet = ''ABCDEFGHIJKLMNOPQRSTUVWXYZabcdefghijklmnopqrstuvwxyz0123456789+/''"

fun b64_bytes :: "nat list \<Rightarrow> string" where
  "b64_bytes [] = []"
| "b64_bytes [a] = [b64_alphabet ! (a div 4), b64_alphabet ! ((a mod 4) * 16), CHR ''='', CHR ''='']"
| "b64_bytes [a, b] =
     [b64_alphabet ! (a div 4), b64_alphabet ! ((a mod 4) * 16 + b div 16),
      b64_alphabet ! ((b mod 16) * 4), CHR ''='']"
| "b64_bytes (a # b # c # rest) =
     [b64_alphabet ! (a div 4), b64_alphabet ! ((a mod 4) * 16 + b div 16),
      b64_alphabet ! ((b mod 16) * 4 + c div 64), b64_alphabet ! (c mod 64)] @ b64_bytes rest"

text \<open>
  The library with the reference implementations; the traceback text and the text of a
  float stay parameters.
\<close>

definition ref_lib :: "(exn \<Rightarrow> string) \<Rightarrow> (py_float \<Rightarrow> string) \<Rightarrow> (string \<times> json) list pylib" where
  "ref_lib fexc fstr =
     \<lparr>loads = json_decode,
      dumps = (\<lambda>d. Inr (json_encode (JObject d))),
      b64encode = (\<lambda>s. b64_bytes (utf8 s)),
      format_exc = fexc,
      float_str = fstr\<rparr>"

section \<open>Result codec (\<open>decode_result_from_stdout\<close>)\<close>

definition output_preview :: "string \<Rightarrow> string" where
  "output_preview out = (if length out > 1000 then take 1000 out @ ''...'' else out)"

definition decode_result_from_stdout :: "'i pylib \<Rightarrow> string \<Rightarrow> exn + json" where
  "decode_result_from_stdout lib out =
     (case loads lib (strip out) of
        Decoded v \<Rightarrow> Inr v
      | DecodeError msg \<Rightarrow>
          Inl (Exn ValueError (''Failed to decode JSON result from stdout: '' @ msg
                               @ ''. Output preview: '' @ output_preview out))
      | LoadRaised e \<Rightarrow> Inl e)"

section \<open>\<open>Sandbox.run\<close> and \<open>Sandbox.run_function\<close>\<close>

text \<open>Truth value of \<open>exec_result.get("error")\<close>.\<close>

definition truthy :: "string option \<Rightarrow> bool" where
  "truthy x = (case x of None \<Rightarrow> False | Some s \<Rightarrow> s \<noteq> [])"

definition run ::
  "'i pylib \<Rightarrow> host \<Rightarrow> daemon \<Rightarrow> sandbox \<Rightarrow> string \<Rightarrow> py_result" where
  "run lib h d self code =
     (let script_content = generate_script self code
      in case runner_execute lib h d (runner self) script_content of
           Inr r \<Rightarrow> r
         | Inl e \<Rightarrow>
             error_result (''Error in sandbox.run setup: '' @ exn_str e @ NL @ format_exc lib e))"

text \<open>
  The branch \<open>if "error" in parsed_output\<close>. \<open>script_error not in runner_stderr\<close>
  raises \<open>TypeError\<close> when \<open>script_error\<close> is not a \<open>str\<close>.
\<close>

definition script_error_outcome :: "py_result \<Rightarrow> json \<Rightarrow> exn + py_result" where
  "script_error_outcome exec_result script_error_value =
     (case script_error_value of
        JString script_error \<Rightarrow>
          (let combined_error = ''Script Error: '' @ script_error;
               runner_stderr = stderr exec_result;
               combined_error =
                 (if runner_stderr \<noteq> [] \<and> \<not> py_in script_error runner_stderr
                  then combined_error @ NL @ ''--- Runner Stderr ---'' @ NL @ runner_stderr
                  else combined_error);
               r = exec_result\<lparr>error := Some combined_error\<rparr>
           in Inr (if \<not> py_in script_error runner_stderr
                   then r\<lparr>stderr := strip (runner_stderr @ NL @ script_error)\<rparr>
                   else r))
      | v \<Rightarrow>
          Inl (Exn TypeError (SQ @ ''in <string>'' @ SQ
                              @ '' requires string as left operand, not '' @ type_name v)))"

text \<open>The body of \<open>run_function\<close> from the first test of \<open>exec_result\<close> on.\<close>

definition run_function_outcome :: "'i pylib \<Rightarrow> py_result \<Rightarrow> exn + py_result" where
  "run_function_outcome lib exec_result =
     (if truthy (error exec_result) then Inr exec_result
      else if stdout exec_result \<noteq> [] then
        (case decode_result_from_stdout lib (stdout exec_result) of
           Inl e \<Rightarrow>
             if exn_cls e = ValueError
             then Inr (exec_result\<lparr>error := Some (''Failed to parse JSON from stdout: ''
                                                   @ exn_str e)\<rparr>)
             else Inl e
         | Inr parsed_output \<Rightarrow>
             (case parsed_output of
                JObject kvs \<Rightarrow>
                  (let r = (case map_of kvs ''result'' of
                              Some v \<Rightarrow> exec_result\<lparr>result := Some v\<rparr>
                            | None \<Rightarrow> exec_result)
                   in case map_of kvs ''error'' of
                        Some script_error \<Rightarrow> script_error_outcome r script_error
                      | None \<Rightarrow>
                          Inr (if map_of kvs ''result'' = None
                               then r\<lparr>error := Some (''Script JSON output missing '' @ SQ
                                                      @ ''result'' @ SQ @ '' or '' @ SQ
                                                      @ ''error'' @ SQ @ ''.'')\<rparr>
                               else r))
              | _ \<Rightarrow> Inr (exec_result\<lparr>error := Some ''Script JSON output was not a dictionary.''\<rparr>)))
      else if stderr exec_result \<noteq> [] then
        Inr (exec_result\<lparr>error := Some (''Execution failed (no stdout). Stderr: ''
                                        @ take 1000 (stderr exec_result))\<rparr>)
      else Inr exec_result)"

text \<open>The two \<open>except\<close> clauses of \<open>run_function\<close>.\<close>

definition run_function_handler :: "'i pylib \<Rightarrow> exn \<Rightarrow> py_result" where
  "run_function_handler lib e =
     (if exn_cls e = ValueError then error_result (exn_str e)
      else error_result (''Error in sandbox.run_function setup: '' @ exn_str e @ NL
                         @ format_exc lib e))"

text \<open>
  The first two statements of the \<open>try\<close> block: the script is built and handed to the
  runner, which returns the backend outcome \<open>exec_result\<close> or raises.
\<close>

definition run_function_exec ::
  "'i pylib \<Rightarrow> host \<Rightarrow> daemon \<Rightarrow> sandbox \<Rightarrow> string \<Rightarrow> string \<Rightarrow> 'i option \<Rightarrow> bool
     \<Rightarrow> exn + py_result" where
  "run_function_exec lib h d self code func_name inputs is_async =
     (case generate_function_script lib self code func_name inputs is_async of
        Inl e \<Rightarrow> Inl e
      | Inr script_content \<Rightarrow> runner_execute lib h d (runner self) script_content)"

definition run_function ::
  "'i pylib \<Rightarrow> host \<Rightarrow> daemon \<Rightarrow> sandbox \<Rightarrow> string \<Rightarrow> string \<Rightarrow> 'i option \<Rightarrow> bool \<Rightarrow> py_result" where
  "run_function lib h d self code func_name inputs is_async =
     (case run_function_exec lib h d self code func_name inputs is_async of
        Inl e \<Rightarrow> run_function_handler lib e
      | Inr exec_result \<Rightarrow>
          (case run_function_outcome lib exec_result of
             Inl e \<Rightarrow> run_function_handler lib e
           | Inr r \<Rightarrow> r))"

section \<open>Vocabulary of the statements\<close>

text \<open>The keys of the \<open>environment\<close> argument (\<open>None\<close> has none).\<close>

definition env_keys :: "env option \<Rightarrow> string set" where
  "env_keys e = (case e of None \<Rightarrow> {} | Some l \<Rightarrow> fst ` set l)"

text \<open>The allow-list a constructor works with: the argument, or the default of its backend.\<close>

definition allow_list :: "string set \<Rightarrow> string set option \<Rightarrow> string set" where
  "allow_list dflt allowed = (case allowed of None \<Rightarrow> dflt | Some a \<Rightarrow> a)"

text \<open>\<open>os.environ.get(k)\<close> is truthy: the variable is set in the calling process and not empty.\<close>

definition nonempty_in :: "(string \<rightharpoonup> string) \<Rightarrow> string \<Rightarrow> bool" where
  "nonempty_in os_environ k = (case os_environ k of None \<Rightarrow> False | Some v \<Rightarrow> v \<noteq> [])"

text \<open>The first exception raised inside the \<open>try\<close> block of the container backend.\<close>

definition docker_raises :: "daemon \<Rightarrow> docker_runner \<Rightarrow> string \<Rightarrow> exn option" where
  "docker_raises d rn script_content =
     (case from_env d of
        Some e \<Rightarrow> Some e
      | None \<Rightarrow>
     (case ping d of
        Some e \<Rightarrow> Some e
      | None \<Rightarrow>
     (case containers_run d (image_name rn) (environment rn)
             (if \<not> allow_network rn then Some ''none'' else None) of
        Inl e \<Rightarrow> Some e
      | Inr container \<Rightarrow>
          if \<not> container then Some (Exn RuntimeError ''Failed to create Docker container.'')
          else
     (case put_archive d script_content of
        Some e \<Rightarrow> Some e
      | None \<Rightarrow>
     (case exec_run d script_content of
        Inl e \<Rightarrow> Some e
      | Inr x \<Rightarrow> None)))))"

text \<open>The last line of a text stripped of surrounding whitespace.\<close>

definition last_line :: "string \<Rightarrow> string" where
  "last_line s = rev (takeWhile (\<lambda>c. c \<noteq> CHR 0x0A) (rev (strip s)))"

section \<open>Example objects\<close>

definition example_float_str :: "py_float \<Rightarrow> string" where
  "example_float_str x = (if x = 60 then ''60.0'' else if x = 1 / 2 then ''0.5'' else ''30.0'')"

definition example_lib :: "(string \<times> json) list pylib" where
  "example_lib = ref_lib (\<lambda>e. ''Traceback (most recent call last): ...'') example_float_str"

definition host_timeout :: host where
  "host_timeout =
     \<lparr>tmp_write = (\<lambda>script. None),
      uv_run = (\<lambda>uv e t script. Raised (Exn TimeoutExpired ''Command timed out''))\<rparr>"

definition host_exit :: "int \<Rightarrow> string \<Rightarrow> string \<Rightarrow> host" where
  "host_exit rc out err =
     \<lparr>tmp_write = (\<lambda>script. None), uv_run = (\<lambda>uv e t script. Completed rc out err)\<rparr>"

definition daemon_ok :: "int \<Rightarrow> string \<Rightarrow> string \<Rightarrow> daemon" where
  "daemon_ok rc out err =
     \<lparr>from_env = None, ping = None, containers_run = (\<lambda>img e nm. Inr True),
      put_archive = (\<lambda>script. None), exec_run = (\<lambda>script. Inr (rc, Some out, Some err))\<rparr>"

definition daemon_image_missing :: daemon where
  "daemon_image_missing =
     (daemon_ok 0 [] [])\<lparr>containers_run := (\<lambda>img e nm. Inl (Exn ImageNotFound ''No such image''))\<rparr>"

definition daemon_down :: daemon where
  "daemon_down = (daemon_ok 0 [] [])\<lparr>ping := Some (Exn DockerException ''Connection refused'')\<rparr>"

definition daemon_upload_fails :: daemon where
  "daemon_upload_fails =
     (daemon_ok 0 [] [])\<lparr>put_archive := (\<lambda>script. Some (Exn OtherException ''broken pipe''))\<rparr>"

definition example_docker_runner :: docker_runner where
  "example_docker_runner =
     \<lparr>environment = [], timeout = None, image_name = DEFAULT_IMAGE, allow_network = False\<rparr>"

definition example_subprocess_runner :: subprocess_runner where
  "example_subprocess_runner =
     \<lparr>environment = [(''PATH'', ''/usr/bin'')], timeout = Some 60, uv_path = ''/usr/bin/uv'',
      cpu_time_limit = None, memory_limit = None\<rparr>"

definition example_deps :: dependencies where
  "example_deps = [(''numpy'', DepStr ''>=1.20''), (''cowsay'', DepStr ''*''),
                   (''httpx'', DepInfo (Some ''0.27.0'') (Some [''http2'', ''cli'']))]"

definition example_subprocess_env :: subprocess_runner where
  "example_subprocess_env =
     \<lparr>environment = [(''USER'', ''test''), (''LANG'', ''C''), (''PATH'', ''/bin''),
                     (''HOME'', []), (''TMPDIR'', ''/tmp'')],
      timeout = Some 60, uv_path = ''/usr/bin/uv'', cpu_time_limit = None,
      memory_limit = None\<rparr>"

definition example_sandbox :: sandbox where
  "example_sandbox =
     \<lparr>dependencies = [], settings = [], runner = SubprocessRunner example_subprocess_runner\<rparr>"

text \<open>The stdout of a guest function that prints a line and returns 1.\<close>

definition printed_then_result :: string where
  \<open>printed_then_result = ''hello'' @ NL @ ''{"result": 1}'' @ NL\<close>

definition guest_code :: string where
  \<open>guest_code = ''def main(): print("hello"); return 1''\<close>

text \<open>
  \<open>run_function\<close> and its backend outcome on the process backend, for a child process that
  ends with the given return code and streams.
\<close>

definition run_example :: "int \<Rightarrow> string \<Rightarrow> string \<Rightarrow> py_result" where
  "run_example rc out err =
     run_function example_lib (host_exit rc out err) (daemon_ok 0 [] []) example_sandbox
       guest_code ''main'' None False"

definition exec_example :: "int \<Rightarrow> string \<Rightarrow> string \<Rightarrow> exn + py_result" where
  "exec_example rc out err =
     run_function_exec example_lib (host_exit rc out err) (daemon_ok 0 [] []) example_sandbox
       guest_code ''main'' None False"

definition ok_outcome :: "string \<Rightarrow> string \<Rightarrow> py_result" where
  "ok_outcome out err = \<lparr>stdout = out, stderr = err, result = None, error = None\<rparr>"

definition outcome_exit1 :: py_result where
  "outcome_exit1 =
     \<lparr>stdout = [], stderr = ''boom'' @ NL, result = None,
      error = Some ''Subprocess failed (exit code 1). Stderr: boom''\<rparr>"

section \<open>Rendering of the dependency header\<close>

lemma fold_append_dep_lines:
  "fold (\<lambda>(key, v) dep_lines. dep_lines @ [dep_line key v]) deps acc
     = acc @ map (\<lambda>(key, v). dep_line key v) deps"
  by (induction deps arbitrary: acc) (auto simp: case_prod_beta)

lemma dep_line_shape: "dep_line name v = quoted (render_shape (shape_of name v))"
proof (cases v)
  case (DepStr c)
  then show ?thesis by simp
next
  case (DepInfo ver ex)
  then show ?thesis
    by (cases ver; cases ex) (simp_all add: Let_def)
next
  case DepOther
  then show ?thesis by simp
qed

text \<open>
  C9. The rendered header lists every dependency, in insertion order, as the quoted
  specifier of its shape, the entries separated by a comma, a newline and the comment
  prefix of the header.
\<close>

theorem format_dependencies_shapes:
  "format_dependencies deps
     = join dep_sep (map (\<lambda>(name, v). quoted (render_shape (shape_of name v))) deps)"
proof -
  have "(\<lambda>(key, v). dep_line key v)
          = (\<lambda>(name, v). quoted (render_shape (shape_of name v)))"
    by (simp add: fun_eq_iff dep_line_shape)
  then show ?thesis
    unfolding format_dependencies_def fold_append_dep_lines by simp
qed

section \<open>Script builder\<close>

lemma format_dependencies_example:
  \<open>format_dependencies example_deps
     = ''"numpy>=1.20",'' @ NL @ ''#    "cowsay",'' @ NL @ ''#    "httpx[http2,cli]==0.27.0"''\<close>
  by (simp add: format_dependencies_def example_deps_def dep_sep_def quoted_def NL_def)

lemma generate_script_example:
  \<open>generate_script \<lparr>dependencies = [(''cowsay'', DepStr ''*'')], settings = [],
                     runner = DockerRunner example_docker_runner\<rparr> ''print(1)''
     = NL @ ''# /// script'' @ NL @ ''# requires-python = ">=3.10"'' @ NL
       @ ''# dependencies = ['' @ NL @ ''#    "cowsay"'' @ NL @ ''# ]'' @ NL @ ''# ///'' @ NL
       @ ''print(1)'' @ NL\<close>
  by (simp add: generate_script_def format_dependencies_def script_header_def unlines_def
      quoted_def NL_def)

lemma b64_example: \<open>b64encode (ref_lib fe fs) ''{"a": 3}'' = ''eyJhIjogM30=''\<close>
  by (simp add: ref_lib_def utf8_def b64_alphabet_def)

lemma dumps_example: \<open>dumps (ref_lib fe fs) [(''a'', JInt 3)] = Inr ''{"a": 3}''\<close>
  by (simp add: ref_lib_def encode_string_def encode_char_def str_of_int_def digit_char_def BSL_def)

text \<open>
  C3. The artifact text is a function of the dependency specs of the Sandbox, the code,
  the function name, the inputs and the async flag alone: two Sandbox objects with the
  same dependency specs, whatever their settings and runners, build the same text, in plain
  mode and in function-call mode (where both fail alike when the inputs do not encode).
\<close>

theorem script_builder_deterministic:
  assumes "dependencies sa = dependencies sb"
  shows "generate_script sa code = generate_script sb code
       \<and> generate_function_script lib sa code func_name inputs is_async
           = generate_function_script lib sb code func_name inputs is_async"
  using assms by (simp add: generate_script_def generate_function_script_def)

theorem script_builder_deterministic_witness:
  "dependencies \<lparr>dependencies = example_deps, settings = [], runner = DockerRunner example_docker_runner\<rparr>
     = dependencies \<lparr>dependencies = example_deps, settings = [(''debug'', JBool True)],
                     runner = SubprocessRunner example_subprocess_runner\<rparr>
   \<and> generate_script \<lparr>dependencies = example_deps, settings = [], runner = DockerRunner example_docker_runner\<rparr> ''def main(a): return a''
     = generate_script \<lparr>dependencies = example_deps, settings = [(''debug'', JBool True)],
                     runner = SubprocessRunner example_subprocess_runner\<rparr> ''def main(a): return a''
   \<and> generate_function_script (ref_lib (\<lambda>e. []) (\<lambda>x. []))
        \<lparr>dependencies = example_deps, settings = [], runner = DockerRunner example_docker_runner\<rparr>
        ''def main(a): return a'' ''main'' (Some [(''a'', JInt 3)]) True
     = generate_function_script (ref_lib (\<lambda>e. []) (\<lambda>x. []))
        \<lparr>dependencies = example_deps, settings = [(''debug'', JBool True)],
         runner = SubprocessRunner example_subprocess_runner\<rparr>
        ''def main(a): return a'' ''main'' (Some [(''a'', JInt 3)]) True"
  using
    script_builder_deterministic
    [where sa = "\<lparr>dependencies = example_deps, settings = [], runner = DockerRunner example_docker_runner\<rparr>"
       and sb = "\<lparr>dependencies = example_deps, settings = [(''debug'', JBool True)],
          runner = SubprocessRunner example_subprocess_runner\<rparr>"
       and code = "''def main(a): return a''" and lib = "ref_lib (\<lambda>e. []) (\<lambda>x. [])"
       and func_name = "''main''" and inputs = "Some [(''a'', JInt 3)]" and is_async = True]
  by simp

section \<open>Substrings\<close>

lemma py_in_iff: "py_in a b \<longleftrightarrow> (\<exists>p s. b = p @ a @ s)"
proof (induction b)
  case Nil
  then show ?case by auto
next
  case (Cons c cs)
  show ?case
  proof
    assume "py_in a (c # cs)"
    then consider "prefix a (c # cs)" | "py_in a cs" by auto
    then show "\<exists>p s. c # cs = p @ a @ s"
    proof cases
      case 1
      then obtain s where "c # cs = a @ s" by (auto simp: prefix_def)
      then have "c # cs = [] @ a @ s" by simp
      then show ?thesis by blast
    next
      case 2
      with Cons.IH obtain p s where "cs = p @ a @ s" by blast
      then have "c # cs = (c # p) @ a @ s" by simp
      then show ?thesis by blast
    qed
  next
    assume "\<exists>p s. c # cs = p @ a @ s"
    then obtain p s where eq: "c # cs = p @ a @ s" by blast
    show "py_in a (c # cs)"
    proof (cases p)
      case Nil
      with eq have "prefix a (c # cs)" by (simp add: prefix_def)
      then show ?thesis by simp
    next
      case (Cons x xs)
      with eq have "cs = xs @ a @ s" by simp
      with Cons.IH have "py_in a cs" by blast
      then show ?thesis by simp
    qed
  qed
qed

lemma py_in_middle: "py_in a (p @ a @ s)"
  unfolding py_in_iff by blast

section \<open>Environment filter\<close>

lemma keys_fold_filter:
  "fst ` set (fold (\<lambda>(key, v) filtered_env.
                       if key \<in> A then AList.update key v filtered_env else filtered_env) l acc)
     = fst ` set acc \<union> (fst ` set l \<inter> A)"
proof (induction l arbitrary: acc)
  case Nil
  then show ?case by simp
next
  case (Cons p l)
  obtain k v where p: "p = (k, v)" by (cases p)
  show ?case
    by (cases "k \<in> A") (auto simp: p Cons.IH dom_update)
qed

lemma keys_filter_env: "fst ` set (filter_env e A) = env_keys e \<inter> A"
  by (cases e) (simp_all add: filter_env_def env_keys_def keys_fold_filter)

lemma keys_fold_update:
  "fst ` set (fold (\<lambda>(k, v) d. AList.update k v d) l acc) = fst ` set acc \<union> fst ` set l"
proof (induction l arbitrary: acc)
  case Nil
  then show ?case by simp
next
  case (Cons p l)
  obtain k v where p: "p = (k, v)" by (cases p)
  show ?case by (auto simp: p Cons.IH dom_update)
qed

lemma keys_base_environment: "fst ` set (base_environment l) = fst ` set l"
  by (simp add: base_environment_def keys_fold_update)

lemma keys_inject_default:
  "fst ` set (inject_default os A k l) = fst ` set l \<union> ({k} \<inter> A)"
  by (auto simp: inject_default_def dom_update map_of_eq_None_iff)

lemma keys_inject_temp:
  "fst ` set (inject_temp os A k l)
     = fst ` set l \<union> {t. t = k \<and> t \<in> A \<and> t \<notin> fst ` set l \<and> nonempty_in os t}"
  by (auto simp: inject_temp_def dom_update nonempty_in_def map_of_eq_None_iff
      split: option.splits)

lemma keys_fold_inject_temp:
  "fst ` set (fold (inject_temp os A) ks l)
     = fst ` set l \<union> {t \<in> set ks \<inter> A. t \<notin> fst ` set l \<and> nonempty_in os t}"
proof (induction ks arbitrary: l)
  case Nil
  then show ?case by simp
next
  case (Cons k ks)
  show ?case
    unfolding fold_simps Cons.IH keys_inject_temp by auto
qed

lemma temp_not_boot:
  "t \<in> {''TMPDIR'', ''TEMP'', ''TMP''} \<Longrightarrow> t \<notin> {''PATH'', ''HOME'', ''USER''}"
  by auto

lemma keys_subprocess_environment:
  assumes "SubprocessSandboxRunner_init which_uv os e tmo allowed cpu mem = Inr rn"
  shows "fst ` set (environment rn)
           = (env_keys e \<inter> allow_list DEFAULT_ALLOWED_ENV_VARS allowed)
             \<union> ({''PATH'', ''HOME'', ''USER''} \<inter> allow_list DEFAULT_ALLOWED_ENV_VARS allowed)
             \<union> {t \<in> {''TMPDIR'', ''TEMP'', ''TMP''} \<inter> allow_list DEFAULT_ALLOWED_ENV_VARS allowed.
                  t \<notin> env_keys e \<and> nonempty_in os t}"
proof -
  let ?A = "allow_list DEFAULT_ALLOWED_ENV_VARS allowed"
  let ?T = "{''TMPDIR'', ''TEMP'', ''TMP''}"
  let ?B = "{''PATH'', ''HOME'', ''USER''}"
  define l3 where "l3 = inject_default os ?A ''USER'' (inject_default os ?A ''HOME''
           (inject_default os ?A ''PATH'' (filter_env e ?A)))"
  from assms have rn: "environment rn = base_environment
     (fold (inject_temp os ?A) [''TMPDIR'', ''TEMP'', ''TMP''] l3)"
    by (auto simp: SubprocessSandboxRunner_init_def allow_list_def Let_def l3_def
        split: if_splits)
  have k3: "fst ` set l3 = (env_keys e \<inter> ?A) \<union> (?B \<inter> ?A)"
    unfolding l3_def keys_inject_default keys_filter_env by blast
  have "fst ` set (environment rn)
          = fst ` set l3 \<union> {t \<in> ?T \<inter> ?A. t \<notin> fst ` set l3 \<and> nonempty_in os t}"
    unfolding rn keys_base_environment keys_fold_inject_temp by simp
  also have "{t \<in> ?T \<inter> ?A. t \<notin> fst ` set l3 \<and> nonempty_in os t}
          = {t \<in> ?T \<inter> ?A. t \<notin> env_keys e \<and> nonempty_in os t}"
    unfolding k3 using temp_not_boot by blast
  finally show ?thesis unfolding k3 .
qed

lemma keys_docker_environment:
  "fst ` set (environment (DockerSandboxRunner_init img e tmo an allowed))
     = env_keys e \<inter> allow_list DEFAULT_ALLOWED_ENV_VARS_DOCKER allowed"
  by (simp add: DockerSandboxRunner_init_def allow_list_def keys_base_environment
      keys_filter_env)

section \<open>Filtered environment of the runners\<close>

text \<open>
  C2, as the code has it. The environment of a process-backend runner holds exactly the
  allow-listed keys of the caller's environment, \<open>PATH\<close>, \<open>HOME\<close> and \<open>USER\<close> when
  allow-listed, and each of \<open>TMPDIR\<close>, \<open>TEMP\<close>, \<open>TMP\<close> that is allow-listed, absent
  from the caller's environment and set to a non-empty value in the calling process. The
  environment of a container-backend runner holds exactly the allow-listed keys of the
  caller's environment. Neither holds a key outside the allow-list.
\<close>

theorem filtered_environment_keys:
  "(SubprocessSandboxRunner_init which_uv os_environ henv tmo allowed cpu mem = Inr rn
      \<longrightarrow> fst ` set (environment rn)
            = (env_keys henv \<inter> allow_list DEFAULT_ALLOWED_ENV_VARS allowed)
              \<union> ({''PATH'', ''HOME'', ''USER''} \<inter> allow_list DEFAULT_ALLOWED_ENV_VARS allowed)
              \<union> {t \<in> {''TMPDIR'', ''TEMP'', ''TMP''} \<inter> allow_list DEFAULT_ALLOWED_ENV_VARS allowed.
                   t \<notin> env_keys henv \<and> nonempty_in os_environ t}
          \<and> fst ` set (environment rn) \<subseteq> allow_list DEFAULT_ALLOWED_ENV_VARS allowed)
   \<and> fst ` set (environment (DockerSandboxRunner_init img henv tmo allow_net allowed))
       = env_keys henv \<inter> allow_list DEFAULT_ALLOWED_ENV_VARS_DOCKER allowed
   \<and> fst ` set (environment (DockerSandboxRunner_init img henv tmo allow_net allowed))
       \<subseteq> allow_list DEFAULT_ALLOWED_ENV_VARS_DOCKER allowed"
proof -
  have sub: "fst ` set (environment rn) \<subseteq> allow_list DEFAULT_ALLOWED_ENV_VARS allowed"
    if "SubprocessSandboxRunner_init which_uv os_environ henv tmo allowed cpu mem = Inr rn"
    unfolding keys_subprocess_environment [OF that] by blast
  show ?thesis
    using sub keys_subprocess_environment [of which_uv os_environ henv tmo allowed cpu mem rn]
    by (simp add: keys_docker_environment)
qed

theorem filtered_environment_keys_witness:
  "SubprocessSandboxRunner_init (Some ''/usr/bin/uv'')
       (map_of [(''PATH'', ''/bin''), (''TMPDIR'', ''/tmp''), (''TEMP'', [])])
       (Some [(''SECRET'', ''123''), (''USER'', ''test''), (''LANG'', ''C'')]) (Some 60) None None None
     = Inr example_subprocess_env
   \<and> fst ` set (environment example_subprocess_env) \<subseteq> allow_list DEFAULT_ALLOWED_ENV_VARS None
   \<and> fst ` set (environment (DockerSandboxRunner_init DEFAULT_IMAGE
                  (Some [(''SECRET'', ''123''), (''USER'', ''test''), (''LANG'', ''C'')]) (Some 60)
                  False None))
       = env_keys (Some [(''SECRET'', ''123''), (''USER'', ''test''), (''LANG'', ''C'')])
         \<inter> allow_list DEFAULT_ALLOWED_ENV_VARS_DOCKER None"
proof -
  have init: "SubprocessSandboxRunner_init (Some ''/usr/bin/uv'')
       (map_of [(''PATH'', ''/bin''), (''TMPDIR'', ''/tmp''), (''TEMP'', [])])
       (Some [(''SECRET'', ''123''), (''USER'', ''test''), (''LANG'', ''C'')]) (Some 60) None None None
     = Inr example_subprocess_env"
    by code_simp
  note th = filtered_environment_keys
         [where which_uv = "Some ''/usr/bin/uv''"
            and os_environ = "map_of [(''PATH'', ''/bin''), (''TMPDIR'', ''/tmp''), (''TEMP'', [])]"
            and henv = "Some [(''SECRET'', ''123''), (''USER'', ''test''), (''LANG'', ''C'')]"
            and tmo = "Some 60" and allowed = None and cpu = None and mem = None
            and img = DEFAULT_IMAGE and allow_net = False and rn = example_subprocess_env]
  from th [THEN conjunct1, rule_format, OF init]
  have s: "fst ` set (environment example_subprocess_env)
             \<subseteq> allow_list DEFAULT_ALLOWED_ENV_VARS None"
    by (rule conjunct2)
  from th [THEN conjunct2]
  have d: "fst ` set (environment (DockerSandboxRunner_init DEFAULT_IMAGE
                  (Some [(''SECRET'', ''123''), (''USER'', ''test''), (''LANG'', ''C'')]) (Some 60)
                  False None))
       = env_keys (Some [(''SECRET'', ''123''), (''USER'', ''test''), (''LANG'', ''C'')])
         \<inter> allow_list DEFAULT_ALLOWED_ENV_VARS_DOCKER None"
    by (rule conjunct1)
  from init s d show ?thesis by (intro conjI)
qed

lemma example_subprocess_env_keys:
  "fst ` set (environment example_subprocess_env)
     = {''USER'', ''LANG'', ''PATH'', ''HOME'', ''TMPDIR''}"
  by (simp add: example_subprocess_env_def)

text \<open>
  The container backend injects no boot default: with \<open>PATH\<close> allow-listed and absent
  from the caller's environment, the runner's environment has no \<open>PATH\<close>.
\<close>

theorem docker_boot_default_counterexample:
  "''PATH'' \<in> allow_list DEFAULT_ALLOWED_ENV_VARS_DOCKER (Some {''PATH'', ''LANG''})
   \<and> ''PATH'' \<notin> env_keys (Some [(''LANG'', ''C'')])
   \<and> environment (DockerSandboxRunner_init DEFAULT_IMAGE (Some [(''LANG'', ''C'')]) None False
        (Some {''PATH'', ''LANG''})) = [(''LANG'', ''C'')]
   \<and> ''PATH'' \<notin> fst ` set (environment (DockerSandboxRunner_init DEFAULT_IMAGE
                                (Some [(''LANG'', ''C'')]) None False (Some {''PATH'', ''LANG''})))"
  by (simp add: DockerSandboxRunner_init_def allow_list_def env_keys_def filter_env_def
      base_environment_def)

section \<open>Process backend\<close>

text \<open>
  C6. On the process backend a timeout of \<open>subprocess.run\<close> gives an outcome whose
  error is the timeout message, which is never the message of a nonzero exit; and a
  nonzero exit gives an outcome that keeps the captured streams and whose error holds
  the exit code and the stderr text (stripped of surrounding whitespace).
\<close>

theorem subprocess_timeout_and_exit_errors:
  assumes "tmp_write h script = None"
  shows "(uv_run h (uv_path rn) (environment rn) (timeout rn) script = Raised (Exn TimeoutExpired m)
            \<longrightarrow> execute_script_subprocess lib h rn script
                  = Inr \<lparr>stdout = [], stderr = NL @ ''[Runner Error] TimeoutExpired'', result = None,
                         error = Some (''Subprocess timed out after ''
                                       @ timeout_text lib (timeout rn) @ '' seconds.'')\<rparr>
                \<and> (\<forall>rc err. ''Subprocess timed out after '' @ timeout_text lib (timeout rn)
                                @ '' seconds.''
                              \<noteq> ''Subprocess failed (exit code '' @ str_of_int rc
                                @ ''). Stderr: '' @ strip err))
       \<and> (\<forall>rc out err.
            rc \<noteq> 0 \<and> uv_run h (uv_path rn) (environment rn) (timeout rn) script = Completed rc out err
            \<longrightarrow> execute_script_subprocess lib h rn script
                  = Inr \<lparr>stdout = out, stderr = err, result = None,
                         error = Some (''Subprocess failed (exit code '' @ str_of_int rc
                                       @ ''). Stderr: '' @ strip err)\<rparr>
                \<and> py_in (str_of_int rc) (''Subprocess failed (exit code '' @ str_of_int rc
                                       @ ''). Stderr: '' @ strip err)
                \<and> py_in (strip err) (''Subprocess failed (exit code '' @ str_of_int rc
                                       @ ''). Stderr: '' @ strip err))"
proof -
  have contains_rc: "py_in (str_of_int rc) (''Subprocess failed (exit code '' @ str_of_int rc
                                       @ ''). Stderr: '' @ strip err)" for rc err
    by (rule py_in_middle)
  have contains_err: "py_in (strip err) (''Subprocess failed (exit code '' @ str_of_int rc
                                       @ ''). Stderr: '' @ strip err)" for rc err
    using py_in_middle [of "strip err" "''Subprocess failed (exit code '' @ str_of_int rc
                                       @ ''). Stderr: ''" "[]"] by simp
  show ?thesis
    using assms contains_rc contains_err
    by (simp add: execute_script_subprocess_def empty_result_def)
qed

theorem subprocess_timeout_and_exit_errors_witness:
  "tmp_write host_timeout ''print(1)'' = None
   \<and> uv_run host_timeout (uv_path example_subprocess_runner)
        (environment example_subprocess_runner) (timeout example_subprocess_runner) ''print(1)''
      = Raised (Exn TimeoutExpired ''Command timed out'')
   \<and> execute_script_subprocess example_lib host_timeout example_subprocess_runner ''print(1)''
      = Inr \<lparr>stdout = [], stderr = NL @ ''[Runner Error] TimeoutExpired'', result = None,
             error = Some ''Subprocess timed out after 60.0 seconds.''\<rparr>
   \<and> tmp_write (host_exit 1 [] (''boom'' @ NL)) ''print(1)'' = None
   \<and> (1::int) \<noteq> 0
   \<and> uv_run (host_exit 1 [] (''boom'' @ NL)) (uv_path example_subprocess_runner)
        (environment example_subprocess_runner) (timeout example_subprocess_runner) ''print(1)''
      = Completed 1 [] (''boom'' @ NL)
   \<and> execute_script_subprocess example_lib (host_exit 1 [] (''boom'' @ NL))
        example_subprocess_runner ''print(1)''
      = Inr \<lparr>stdout = [], stderr = ''boom'' @ NL, result = None,
             error = Some ''Subprocess failed (exit code 1). Stderr: boom''\<rparr>"
proof -
  have a: "tmp_write host_timeout ''print(1)'' = None"
    and b: "uv_run host_timeout (uv_path example_subprocess_runner)
              (environment example_subprocess_runner) (timeout example_subprocess_runner)
              ''print(1)'' = Raised (Exn TimeoutExpired ''Command timed out'')"
    by (simp_all add: host_timeout_def)
  have c: "tmp_write (host_exit 1 [] (''boom'' @ NL)) ''print(1)'' = None"
    and d: "uv_run (host_exit 1 [] (''boom'' @ NL)) (uv_path example_subprocess_runner)
              (environment example_subprocess_runner) (timeout example_subprocess_runner)
              ''print(1)'' = Completed 1 [] (''boom'' @ NL)"
    by (simp_all add: host_exit_def)
  have t: "timeout_text example_lib (timeout example_subprocess_runner) = ''60.0''"
    by (simp add: timeout_text_def example_lib_def ref_lib_def example_float_str_def
        example_subprocess_runner_def)
  have s: "strip (''boom'' @ NL) = ''boom''"
    by (simp add: strip_def py_isspace_def NL_def)
  have n: "str_of_int 1 = ''1''"
    by (simp add: str_of_int_def digit_char_def)
  from subprocess_timeout_and_exit_errors
         [OF a, where rn = example_subprocess_runner and lib = example_lib
            and m = "''Command timed out''"] b t
  have r1: "execute_script_subprocess example_lib host_timeout example_subprocess_runner
              ''print(1)''
            = Inr \<lparr>stdout = [], stderr = NL @ ''[Runner Error] TimeoutExpired'', result = None,
                   error = Some ''Subprocess timed out after 60.0 seconds.''\<rparr>"
    by simp
  from subprocess_timeout_and_exit_errors
         [OF c, where rn = example_subprocess_runner and lib = example_lib] d s n
  have r2: "execute_script_subprocess example_lib (host_exit 1 [] (''boom'' @ NL))
              example_subprocess_runner ''print(1)''
            = Inr \<lparr>stdout = [], stderr = ''boom'' @ NL, result = None,
                   error = Some ''Subprocess failed (exit code 1). Stderr: boom''\<rparr>"
    by simp
  from a b c d r1 r2 show ?thesis by simp
qed

section \<open>Container backend\<close>

lemma docker_execute_handler:
  "docker_raises d rn script = Some e \<Longrightarrow>
     execute_script_docker d rn script = docker_handler empty_result e"
  by (auto simp: docker_raises_def execute_script_docker_def Let_def
      split: option.splits sum.splits if_splits)

text \<open>
  C7. On the container backend, an exception of the image-not-found or not-found class
  and any other exception of the docker client are raised again (as \<open>RuntimeError\<close>)
  by \<open>execute_script\<close>, with no outcome returned; any other exception makes
  \<open>execute_script\<close> return an outcome with the error set and a line appended to stderr.
\<close>

theorem docker_failure_kinds:
  "(docker_raises d rn script = Some e \<and> is_not_found e
      \<longrightarrow> execute_script_docker d rn script
            = Inl (Exn RuntimeError (''Docker image/container error: '' @ exn_str e)))
   \<and> (docker_raises d rn script = Some e \<and> is_docker_exception e \<and> \<not> is_not_found e
      \<longrightarrow> execute_script_docker d rn script
            = Inl (Exn RuntimeError (''Docker operation failed: '' @ exn_str e)))
   \<and> (docker_raises d rn script = Some e \<and> \<not> is_docker_exception e
      \<longrightarrow> execute_script_docker d rn script
            = Inr \<lparr>stdout = [], stderr = NL @ ''[Runner Error] '' @ exn_str e, result = None,
                   error = Some (''Docker runner unexpected error: '' @ exn_str e)\<rparr>)"
  by (auto simp: docker_execute_handler docker_handler_def empty_result_def
      is_docker_exception_def)

theorem docker_failure_kinds_witness:
  "docker_raises daemon_image_missing example_docker_runner ''print(1)''
     = Some (Exn ImageNotFound ''No such image'')
   \<and> is_not_found (Exn ImageNotFound ''No such image'')
   \<and> execute_script_docker daemon_image_missing example_docker_runner ''print(1)''
     = Inl (Exn RuntimeError ''Docker image/container error: No such image'')
   \<and> docker_raises daemon_down example_docker_runner ''print(1)''
     = Some (Exn DockerException ''Connection refused'')
   \<and> is_docker_exception (Exn DockerException ''Connection refused'')
   \<and> \<not> is_not_found (Exn DockerException ''Connection refused'')
   \<and> execute_script_docker daemon_down example_docker_runner ''print(1)''
     = Inl (Exn RuntimeError ''Docker operation failed: Connection refused'')
   \<and> docker_raises daemon_upload_fails example_docker_runner ''print(1)''
     = Some (Exn OtherException ''broken pipe'')
   \<and> \<not> is_docker_exception (Exn OtherException ''broken pipe'')
   \<and> execute_script_docker daemon_upload_fails example_docker_runner ''print(1)''
     = Inr \<lparr>stdout = [], stderr = NL @ ''[Runner Error] broken pipe'', result = None,
            error = Some ''Docker runner unexpected error: broken pipe''\<rparr>"
proof -
  have a: "docker_raises daemon_image_missing example_docker_runner ''print(1)''
             = Some (Exn ImageNotFound ''No such image'')
           \<and> is_not_found (Exn ImageNotFound ''No such image'')"
    by (simp add: docker_raises_def daemon_image_missing_def daemon_ok_def is_not_found_def)
  have b: "docker_raises daemon_down example_docker_runner ''print(1)''
             = Some (Exn DockerException ''Connection refused'')
           \<and> is_docker_exception (Exn DockerException ''Connection refused'')
           \<and> \<not> is_not_found (Exn DockerException ''Connection refused'')"
    by (simp add: docker_raises_def daemon_down_def daemon_ok_def is_not_found_def
        is_docker_exception_def)
  have c: "docker_raises daemon_upload_fails example_docker_runner ''print(1)''
             = Some (Exn OtherException ''broken pipe'')
           \<and> \<not> is_docker_exception (Exn OtherException ''broken pipe'')"
    by (simp add: docker_raises_def daemon_upload_fails_def daemon_ok_def is_not_found_def
        is_docker_exception_def)
  from a b c
    docker_failure_kinds [where d = daemon_image_missing and rn = example_docker_runner
      and script = "''print(1)''" and e = "Exn ImageNotFound ''No such image''"]
    docker_failure_kinds [where d = daemon_down and rn = example_docker_runner
      and script = "''print(1)''" and e = "Exn DockerException ''Connection refused''"]
    docker_failure_kinds [where d = daemon_upload_fails and rn = example_docker_runner
      and script = "''print(1)''" and e = "Exn OtherException ''broken pipe''"]
  show ?thesis by simp
qed

text \<open>
  \<open>Sandbox.run\<close> catches what the runner raises and returns it inside an outcome.
\<close>

lemma run_embeds_raised_error:
  "runner_execute lib h d (runner self) (generate_script self code) = Inl e \<Longrightarrow>
     run lib h d self code
       = error_result (''Error in sandbox.run setup: '' @ exn_str e @ NL @ format_exc lib e)"
  by (simp add: run_def)

section \<open>Construction\<close>

text \<open>
  C8. Setup errors are raised by the constructors: an unknown runner type is a
  \<open>ValueError\<close> of \<open>Sandbox.__init__\<close>, and a missing \<open>uv\<close> executable is a
  \<open>FileNotFoundError\<close> of the constructor of the process backend, which
  \<open>Sandbox.__init__\<close> raises again with the same class. No runner object exists then.
\<close>

theorem setup_errors_raised:
  "(runner_type \<noteq> ''subprocess'' \<and> runner_type \<noteq> ''docker''
      \<longrightarrow> Sandbox_init which_uv os_environ deps sets runner_type henv tmo allow_net allowed_list rkw
            = Inl (Exn ValueError (''Unknown runner_type '' @ SQ @ runner_type @ SQ
                                   @ ''. Use: ['subprocess', 'docker']'')))
   \<and> (which_uv = None \<or> which_uv = Some []
      \<longrightarrow> SubprocessSandboxRunner_init which_uv os_environ henv tmo allowed cpu mem
            = Inl (Exn FileNotFoundError
                     (''The '' @ SQ @ ''uv'' @ SQ @ '' command was not found in the system PATH.'')))
   \<and> ((which_uv = None \<or> which_uv = Some []) \<and> (\<forall>k. rkw = Some k \<longrightarrow> kw_allow_network k = None)
      \<longrightarrow> Sandbox_init which_uv os_environ deps sets ''subprocess'' henv tmo allow_net allowed_list rkw
            = Inl (Exn FileNotFoundError
                     (''Failed to init runner '' @ SQ @ ''subprocess'' @ SQ @ '': The '' @ SQ @ ''uv''
                      @ SQ @ '' command was not found in the system PATH.'')))"
  by (auto simp: Sandbox_init_def SubprocessSandboxRunner_init_def init_failure_def Let_def
      no_kwargs_def split: option.splits)

theorem setup_errors_raised_witness:
  "''invalid_runner'' \<noteq> ''subprocess'' \<and> ''invalid_runner'' \<noteq> ''docker''
   \<and> Sandbox_init (Some ''/usr/bin/uv'') Map.empty None None ''invalid_runner'' None (Some 60)
        False None None
      = Inl (Exn ValueError ''Unknown runner_type 'invalid_runner'. Use: ['subprocess', 'docker']'')
   \<and> SubprocessSandboxRunner_init None Map.empty None (Some 60) None None None
      = Inl (Exn FileNotFoundError ''The 'uv' command was not found in the system PATH.'')
   \<and> Sandbox_init None Map.empty None None ''subprocess'' None (Some 60) False None None
      = Inl (Exn FileNotFoundError
               ''Failed to init runner 'subprocess': The 'uv' command was not found in the system PATH.'')"
  using
    setup_errors_raised [where runner_type = "''invalid_runner''" and which_uv = "Some ''/usr/bin/uv''"
      and os_environ = Map.empty and deps = None and sets = None and henv = None
      and tmo = "Some 60" and allow_net = False and allowed_list = None and rkw = None
      and allowed = None and cpu = None and mem = None]
    setup_errors_raised [where runner_type = "''subprocess''" and which_uv = None
      and os_environ = Map.empty and deps = None and sets = None and henv = None
      and tmo = "Some 60" and allow_net = False and allowed_list = None and rkw = None
      and allowed = None and cpu = None and mem = None]
  by (simp add: SQ_def)

section \<open>Outcomes of the backends\<close>

lemma subprocess_outcome_wf:
  "execute_script_subprocess lib h rn script = Inr r \<Longrightarrow> result r = None \<and> error r \<noteq> Some []"
  by (auto simp: execute_script_subprocess_def empty_result_def Let_def
      split: option.splits proc_outcome.splits if_splits)

lemma docker_outcome_wf:
  "execute_script_docker d rn script = Inr r \<Longrightarrow> result r = None \<and> error r \<noteq> Some []"
  by (auto simp: execute_script_docker_def docker_handler_def empty_result_def Let_def
      split: option.splits sum.splits if_splits prod.splits)

lemma backend_outcome_wf:
  assumes "run_function_exec lib h d self code func_name inputs is_async = Inr r"
  shows "result r = None \<and> error r \<noteq> Some []"
proof -
  from assms obtain script where
    ex: "runner_execute lib h d (runner self) script = Inr r"
    by (auto simp: run_function_exec_def split: sum.splits)
  show ?thesis
  proof (cases "runner self")
    case (SubprocessRunner rn)
    with ex have "execute_script_subprocess lib h rn script = Inr r"
      by (simp add: runner_execute_def)
    then show ?thesis by (rule subprocess_outcome_wf)
  next
    case (DockerRunner rn)
    with ex have "execute_script_docker d rn script = Inr r"
      by (simp add: runner_execute_def)
    then show ?thesis by (rule docker_outcome_wf)
  qed
qed

lemma encode_inputs_loads: "encode_inputs (lib\<lparr>loads := l\<rparr>) inputs = encode_inputs lib inputs"
  by (simp add: encode_inputs_def split: option.splits sum.splits)

lemma generate_function_script_loads:
  "generate_function_script (lib\<lparr>loads := l\<rparr>) self code func_name inputs is_async
     = generate_function_script lib self code func_name inputs is_async"
  by (simp add: generate_function_script_def encode_inputs_loads Let_def split: sum.splits)

lemma runner_execute_loads:
  "runner_execute (lib\<lparr>loads := l\<rparr>) h d rn script = runner_execute lib h d rn script"
  by (cases rn)
    (simp_all add: runner_execute_def execute_script_subprocess_def timeout_text_def Let_def
       split: option.splits proc_outcome.splits)

lemma run_function_exec_loads:
  "run_function_exec (lib\<lparr>loads := l\<rparr>) h d self code func_name inputs is_async
     = run_function_exec lib h d self code func_name inputs is_async"
  by (simp add: run_function_exec_def generate_function_script_loads runner_execute_loads
      split: sum.splits)

lemma exec_example_ok: "exec_example 0 out err = Inr (ok_outcome out err)"
  by (simp add: exec_example_def run_function_exec_def generate_function_script_def
      encode_inputs_def runner_execute_def example_sandbox_def execute_script_subprocess_def
      host_exit_def empty_result_def Let_def ok_outcome_def)

lemma ok_outcome_fields:
  "error (ok_outcome out err) = None" "stdout (ok_outcome out err) = out"
  "stderr (ok_outcome out err) = err" "result (ok_outcome out err) = None"
  by (simp_all add: ok_outcome_def)

section \<open>Outcome assembly of \<open>run_function\<close>\<close>

lemma output_preview_bound: "length (output_preview out) \<le> 1003"
  by (simp add: output_preview_def)

lemma run_function_from_outcome:
  assumes "run_function_exec lib h d self code func_name inputs is_async = Inr r"
    and "run_function_outcome lib r = Inr r'"
  shows "run_function lib h d self code func_name inputs is_async = r'"
  using assms by (simp add: run_function_def)

lemma outcome_decode_error:
  assumes "\<not> truthy (error r)" and "stdout r \<noteq> []"
    and "loads lib (strip (stdout r)) = DecodeError msg"
  shows "run_function_outcome lib r
           = Inr (r\<lparr>error := Some (''Failed to parse JSON from stdout: ''
                                  @ ''Failed to decode JSON result from stdout: '' @ msg
                                  @ ''. Output preview: '' @ output_preview (stdout r))\<rparr>)"
  using assms by (simp add: run_function_outcome_def decode_result_from_stdout_def)

lemma outcome_result_only:
  assumes "\<not> truthy (error r)" and "stdout r \<noteq> []"
    and "loads lib (strip (stdout r)) = Decoded (JObject kvs)"
    and "map_of kvs ''result'' = Some v" and "map_of kvs ''error'' = None"
  shows "run_function_outcome lib r = Inr (r\<lparr>result := Some v\<rparr>)"
  using assms by (simp add: run_function_outcome_def decode_result_from_stdout_def)

lemma outcome_missing_keys:
  assumes "\<not> truthy (error r)" and "stdout r \<noteq> []"
    and "loads lib (strip (stdout r)) = Decoded (JObject kvs)"
    and "map_of kvs ''result'' = None" and "map_of kvs ''error'' = None"
  shows "run_function_outcome lib r
           = Inr (r\<lparr>error := Some (''Script JSON output missing '' @ SQ @ ''result'' @ SQ
                                  @ '' or '' @ SQ @ ''error'' @ SQ @ ''.'')\<rparr>)"
  using assms by (simp add: run_function_outcome_def decode_result_from_stdout_def)

lemma outcome_not_a_dict:
  assumes "\<not> truthy (error r)" and "stdout r \<noteq> []"
    and "loads lib (strip (stdout r)) = Decoded v" and "\<forall>kvs. v \<noteq> JObject kvs"
  shows "run_function_outcome lib r
           = Inr (r\<lparr>error := Some ''Script JSON output was not a dictionary.''\<rparr>)"
  using assms
  by (cases v) (simp_all add: run_function_outcome_def decode_result_from_stdout_def)

lemma outcome_script_error:
  assumes "\<not> truthy (error r)" and "stdout r \<noteq> []"
    and "loads lib (strip (stdout r)) = Decoded (JObject kvs)"
    and "map_of kvs ''error'' = Some (JString script_error)"
  shows "run_function_outcome lib r
           = Inr \<lparr>stdout = stdout r,
                  stderr = (if \<not> py_in script_error (stderr r)
                            then strip (stderr r @ NL @ script_error) else stderr r),
                  result = (case map_of kvs ''result'' of None \<Rightarrow> result r | Some v \<Rightarrow> Some v),
                  error = Some (if stderr r \<noteq> [] \<and> \<not> py_in script_error (stderr r)
                                then ''Script Error: '' @ script_error @ NL
                                     @ ''--- Runner Stderr ---'' @ NL @ stderr r
                                else ''Script Error: '' @ script_error)\<rparr>"
  using assms
  by (cases "map_of kvs ''result''")
    (simp_all add: run_function_outcome_def decode_result_from_stdout_def
      script_error_outcome_def Let_def)

text \<open>
  C4. When the backend outcome has its error set, \<open>run_function\<close> returns that outcome
  with every field as it was; the result is the same whatever \<open>json.loads\<close> would do,
  so stdout is not decoded.
\<close>

theorem backend_error_passthrough:
  assumes "run_function_exec lib h d self code func_name inputs is_async = Inr r"
    and "error r \<noteq> None"
  shows "run_function lib h d self code func_name inputs is_async = r
       \<and> (\<forall>l. run_function (lib\<lparr>loads := l\<rparr>) h d self code func_name inputs is_async = r)"
proof -
  from backend_outcome_wf [OF assms(1)] assms(2) have t: "truthy (error r)"
    by (auto simp: truthy_def split: option.splits)
  then have "run_function_outcome lib' r = Inr r" for lib' :: "'a pylib"
    by (simp add: run_function_outcome_def)
  then show ?thesis
    using assms(1) by (simp add: run_function_def run_function_exec_loads)
qed

theorem backend_error_passthrough_witness:
  "exec_example 1 [] (''boom'' @ NL) = Inr outcome_exit1
   \<and> error outcome_exit1 \<noteq> None
   \<and> run_example 1 [] (''boom'' @ NL) = outcome_exit1"
proof -
  have ex: "exec_example 1 [] (''boom'' @ NL) = Inr outcome_exit1"
    by code_simp
  have er: "error outcome_exit1 \<noteq> None"
    by (simp add: outcome_exit1_def)
  from backend_error_passthrough [OF ex [unfolded exec_example_def] er]
  have "run_example 1 [] (''boom'' @ NL) = outcome_exit1"
    unfolding run_example_def by (rule conjunct1)
  with ex er show ?thesis by (intro conjI)
qed

text \<open>
  C10. When the backend outcome has no error, an empty stdout and an empty stderr,
  \<open>run_function\<close> returns it as it is: the error stays unset and there is no structured
  result; neither the no-stdout error nor the missing-key error is reported.
\<close>

theorem silent_outcome_unchanged:
  assumes "run_function_exec lib h d self code func_name inputs is_async = Inr r"
    and "error r = None" and "stdout r = []" and "stderr r = []"
  shows "run_function lib h d self code func_name inputs is_async = r
       \<and> error (run_function lib h d self code func_name inputs is_async) = None
       \<and> result (run_function lib h d self code func_name inputs is_async) = None"
proof -
  have "run_function_outcome lib r = Inr r"
    using assms(2-4) by (simp add: run_function_outcome_def truthy_def)
  then show ?thesis
    using assms(1,2) backend_outcome_wf [OF assms(1)] by (simp add: run_function_def)
qed

theorem silent_outcome_unchanged_witness:
  "exec_example 0 [] [] = Inr (ok_outcome [] [])
   \<and> error (ok_outcome [] []) = None
   \<and> stdout (ok_outcome [] []) = []
   \<and> stderr (ok_outcome [] []) = []
   \<and> run_example 0 [] [] = ok_outcome [] []
   \<and> error (run_example 0 [] []) = None
   \<and> result (run_example 0 [] []) = None"
proof -
  note ex = exec_example_ok [of "[]" "[]"]
  note f = ok_outcome_fields [of "[]" "[]"]
  from silent_outcome_unchanged [OF ex [unfolded exec_example_def] f(1) f(2) f(3)]
  have "run_example 0 [] [] = ok_outcome [] []
        \<and> error (run_example 0 [] []) = None \<and> result (run_example 0 [] []) = None"
    unfolding run_example_def .
  with ex f show ?thesis by simp
qed

text \<open>
  C1, as the code has it. When the backend outcome has no error and a non-empty stdout,
  \<open>run_function\<close> decodes the whole stdout, stripped of surrounding whitespace. If that
  is not JSON text, the error is the parse failure with the decoder's message and a preview
  of stdout of at most 1000 characters followed by an ellipsis. A decoded dictionary gives
  its \<open>result\<close> as the structured result, its \<open>error\<close> as the error, or the missing-key
  error; any other decoded value gives the not-a-dictionary error.
\<close>

theorem stdout_decoded_whole:
  assumes "run_function_exec lib h d self code func_name inputs is_async = Inr r"
    and "error r = None" and "stdout r \<noteq> []"
  shows "(\<forall>msg. loads lib (strip (stdout r)) = DecodeError msg \<longrightarrow>
            run_function lib h d self code func_name inputs is_async
              = r\<lparr>error := Some (''Failed to parse JSON from stdout: ''
                                 @ ''Failed to decode JSON result from stdout: '' @ msg
                                 @ ''. Output preview: '' @ output_preview (stdout r))\<rparr>)
       \<and> length (output_preview (stdout r)) \<le> 1003
       \<and> (\<forall>kvs v. loads lib (strip (stdout r)) = Decoded (JObject kvs)
                    \<and> map_of kvs ''result'' = Some v \<and> map_of kvs ''error'' = None \<longrightarrow>
            run_function lib h d self code func_name inputs is_async = r\<lparr>result := Some v\<rparr>)
       \<and> (\<forall>kvs e. loads lib (strip (stdout r)) = Decoded (JObject kvs)
                    \<and> map_of kvs ''error'' = Some (JString e) \<longrightarrow>
            error (run_function lib h d self code func_name inputs is_async)
              = Some (if stderr r \<noteq> [] \<and> \<not> py_in e (stderr r)
                      then ''Script Error: '' @ e @ NL @ ''--- Runner Stderr ---'' @ NL @ stderr r
                      else ''Script Error: '' @ e))
       \<and> (\<forall>kvs. loads lib (strip (stdout r)) = Decoded (JObject kvs)
                  \<and> map_of kvs ''result'' = None \<and> map_of kvs ''error'' = None \<longrightarrow>
            run_function lib h d self code func_name inputs is_async
              = r\<lparr>error := Some (''Script JSON output missing '' @ SQ @ ''result'' @ SQ
                                 @ '' or '' @ SQ @ ''error'' @ SQ @ ''.'')\<rparr>)
       \<and> (\<forall>v. loads lib (strip (stdout r)) = Decoded v \<and> (\<forall>kvs. v \<noteq> JObject kvs) \<longrightarrow>
            run_function lib h d self code func_name inputs is_async
              = r\<lparr>error := Some ''Script JSON output was not a dictionary.''\<rparr>)"
proof -
  note ex = assms(1)
  have nt: "\<not> truthy (error r)" using assms(2) by (simp add: truthy_def)
  note ne = assms(3)
  have a: "run_function lib h d self code func_name inputs is_async
              = r\<lparr>error := Some (''Failed to parse JSON from stdout: ''
                                 @ ''Failed to decode JSON result from stdout: '' @ msg
                                 @ ''. Output preview: '' @ output_preview (stdout r))\<rparr>"
    if "loads lib (strip (stdout r)) = DecodeError msg" for msg
    by (rule run_function_from_outcome [OF ex outcome_decode_error [OF nt ne that]])
  have b: "run_function lib h d self code func_name inputs is_async = r\<lparr>result := Some v\<rparr>"
    if "loads lib (strip (stdout r)) = Decoded (JObject kvs)"
      and "map_of kvs ''result'' = Some v" and "map_of kvs ''error'' = None" for kvs v
    by (rule run_function_from_outcome [OF ex outcome_result_only [OF nt ne that]])
  have c: "error (run_function lib h d self code func_name inputs is_async)
              = Some (if stderr r \<noteq> [] \<and> \<not> py_in e (stderr r)
                      then ''Script Error: '' @ e @ NL @ ''--- Runner Stderr ---'' @ NL @ stderr r
                      else ''Script Error: '' @ e)"
    if "loads lib (strip (stdout r)) = Decoded (JObject kvs)"
      and "map_of kvs ''error'' = Some (JString e)" for kvs e
    unfolding run_function_from_outcome [OF ex outcome_script_error [OF nt ne that]] by simp
  have d: "run_function lib h d self code func_name inputs is_async
              = r\<lparr>error := Some (''Script JSON output missing '' @ SQ @ ''result'' @ SQ
                                 @ '' or '' @ SQ @ ''error'' @ SQ @ ''.'')\<rparr>"
    if "loads lib (strip (stdout r)) = Decoded (JObject kvs)"
      and "map_of kvs ''result'' = None" and "map_of kvs ''error'' = None" for kvs
    by (rule run_function_from_outcome [OF ex outcome_missing_keys [OF nt ne that]])
  have e: "run_function lib h d self code func_name inputs is_async
              = r\<lparr>error := Some ''Script JSON output was not a dictionary.''\<rparr>"
    if "loads lib (strip (stdout r)) = Decoded v" and "\<forall>kvs. v \<noteq> JObject kvs" for v
    by (rule run_function_from_outcome [OF ex outcome_not_a_dict [OF nt ne that]])
  from a b c d e output_preview_bound [of "stdout r"] show ?thesis by blast
qed

theorem stdout_decoded_whole_witness:
  \<open>exec_example 0 printed_then_result [] = Inr (ok_outcome printed_then_result [])
   \<and> error (ok_outcome printed_then_result []) = None
   \<and> stdout (ok_outcome printed_then_result []) \<noteq> []
   \<and> loads example_lib (strip (stdout (ok_outcome printed_then_result [])))
       = DecodeError ''Expecting value''
   \<and> run_example 0 printed_then_result []
       = (ok_outcome printed_then_result [])
           \<lparr>error := Some (''Failed to parse JSON from stdout: ''
                           @ ''Failed to decode JSON result from stdout: '' @ ''Expecting value''
                           @ ''. Output preview: ''
                           @ output_preview (stdout (ok_outcome printed_then_result [])))\<rparr>
   \<and> exec_example 0 ''{"result": 1}'' [] = Inr (ok_outcome ''{"result": 1}'' [])
   \<and> loads example_lib (strip (stdout (ok_outcome ''{"result": 1}'' [])))
       = Decoded (JObject [(''result'', JInt 1)])
   \<and> map_of [(''result'', JInt 1)] ''result'' = Some (JInt 1)
   \<and> map_of [(''result'', JInt 1)] ''error'' = None
   \<and> run_example 0 ''{"result": 1}'' [] = (ok_outcome ''{"result": 1}'' [])\<lparr>result := Some (JInt 1)\<rparr>
   \<and> exec_example 0 ''[1, 2]'' [] = Inr (ok_outcome ''[1, 2]'' [])
   \<and> loads example_lib (strip (stdout (ok_outcome ''[1, 2]'' [])))
       = Decoded (JArray [JInt 1, JInt 2])
   \<and> run_example 0 ''[1, 2]'' []
       = (ok_outcome ''[1, 2]'' [])\<lparr>error := Some ''Script JSON output was not a dictionary.''\<rparr>
   \<and> exec_example 0 ''{}'' [] = Inr (ok_outcome ''{}'' [])
   \<and> loads example_lib (strip (stdout (ok_outcome ''{}'' []))) = Decoded (JObject [])
   \<and> run_example 0 ''{}'' []
       = (ok_outcome ''{}'' [])\<lparr>error := Some (''Script JSON output missing '' @ SQ @ ''result''
                                               @ SQ @ '' or '' @ SQ @ ''error'' @ SQ @ ''.'')\<rparr>\<close>
proof -
  note f = ok_outcome_fields
  have n1: "stdout (ok_outcome printed_then_result []) \<noteq> []"
    by (simp add: f printed_then_result_def)
  have l1: "loads example_lib (strip (stdout (ok_outcome printed_then_result [])))
              = DecodeError ''Expecting value''"
    by code_simp
  note t1 = stdout_decoded_whole
              [OF exec_example_ok [of printed_then_result "[]", unfolded exec_example_def] f(1) n1,
               folded run_example_def]
  note r1 = t1 [THEN conjunct1, rule_format, OF l1]
  have n2: \<open>stdout (ok_outcome ''{"result": 1}'' []) \<noteq> []\<close>
    by (simp add: f)
  have l2: \<open>loads example_lib (strip (stdout (ok_outcome ''{"result": 1}'' [])))
              = Decoded (JObject [(''result'', JInt 1)])\<close>
    by code_simp
  have m2: "map_of [(''result'', JInt 1)] ''result'' = Some (JInt 1)"
    "map_of [(''result'', JInt 1)] ''error'' = None"
    by simp_all
  note t2 = stdout_decoded_whole
              [OF exec_example_ok [of \<open>''{"result": 1}''\<close> "[]", unfolded exec_example_def] f(1) n2,
               folded run_example_def]
  note r2 = t2 [THEN conjunct2, THEN conjunct2, THEN conjunct1, rule_format,
                OF conjI [OF l2 conjI [OF m2]]]
  have n3: "stdout (ok_outcome ''[1, 2]'' []) \<noteq> []"
    by (simp add: f)
  have l3: "loads example_lib (strip (stdout (ok_outcome ''[1, 2]'' [])))
              = Decoded (JArray [JInt 1, JInt 2])"
    by code_simp
  have d3: "\<forall>kvs. JArray [JInt 1, JInt 2] \<noteq> JObject kvs"
    by simp
  note t3 = stdout_decoded_whole
              [OF exec_example_ok [of "''[1, 2]''" "[]", unfolded exec_example_def] f(1) n3,
               folded run_example_def]
  note r3 = t3 [THEN conjunct2, THEN conjunct2, THEN conjunct2, THEN conjunct2, THEN conjunct2,
                rule_format, OF conjI [OF l3 d3]]
  have n4: "stdout (ok_outcome ''{}'' []) \<noteq> []"
    by (simp add: f)
  have l4: "loads example_lib (strip (stdout (ok_outcome ''{}'' []))) = Decoded (JObject [])"
    by code_simp
  have m4: "map_of ([] :: (string \<times> json) list) ''result'' = None"
    "map_of ([] :: (string \<times> json) list) ''error'' = None"
    by simp_all
  note t4 = stdout_decoded_whole
              [OF exec_example_ok [of "''{}''" "[]", unfolded exec_example_def] f(1) n4,
               folded run_example_def]
  note r4 = t4 [THEN conjunct2, THEN conjunct2, THEN conjunct2, THEN conjunct2, THEN conjunct1,
                rule_format, OF conjI [OF l4 conjI [OF m4]]]
  show ?thesis
    by (intro conjI exec_example_ok f(1) n1 l1 r1 l2 m2 r2 l3 r3 l4 r4)
qed

text \<open>
  The last line of stdout is not what is decoded: a guest function that prints a line
  before it returns makes the backend's stdout two lines, the last of which decodes to
  the result, and \<open>run_function\<close> reports a parse failure.
\<close>

theorem printed_line_counterexample:
  \<open>json_decode (last_line printed_then_result) = Decoded (JObject [(''result'', JInt 1)])
   \<and> exec_example 0 printed_then_result []
       = Inr \<lparr>stdout = printed_then_result, stderr = [], result = None, error = None\<rparr>
   \<and> run_example 0 printed_then_result []
       = \<lparr>stdout = printed_then_result, stderr = [], result = None,
          error = Some (''Failed to parse JSON from stdout: ''
                        @ ''Failed to decode JSON result from stdout: Expecting value''
                        @ ''. Output preview: '' @ printed_then_result)\<rparr>\<close>
  by code_simp

text \<open>
  C5, as the code has it. When the decoded dictionary has an \<open>error\<close> key with a string,
  the outcome's error is the guest error after the words \<open>Script Error:\<close>, followed by
  the backend's stderr under a separator line exactly when that stderr is not empty and the
  guest error does not occur in it; in that case the guest error is also appended to the
  outcome's stderr.
\<close>

theorem guest_error_combined:
  assumes "run_function_exec lib h d self code func_name inputs is_async = Inr r"
    and "error r = None" and "stdout r \<noteq> []"
    and "loads lib (strip (stdout r)) = Decoded (JObject kvs)"
    and "map_of kvs ''error'' = Some (JString script_error)"
  shows "run_function lib h d self code func_name inputs is_async
           = \<lparr>stdout = stdout r,
              stderr = (if \<not> py_in script_error (stderr r)
                        then strip (stderr r @ NL @ script_error) else stderr r),
              result = map_of kvs ''result'',
              error = Some (if stderr r \<noteq> [] \<and> \<not> py_in script_error (stderr r)
                            then ''Script Error: '' @ script_error @ NL
                                 @ ''--- Runner Stderr ---'' @ NL @ stderr r
                            else ''Script Error: '' @ script_error)\<rparr>"
proof -
  have nt: "\<not> truthy (error r)" using assms(2) by (simp add: truthy_def)
  have res: "result r = None" using backend_outcome_wf [OF assms(1)] by simp
  have "(case map_of kvs ''result'' of None \<Rightarrow> result r | Some v \<Rightarrow> Some v)
          = map_of kvs ''result''"
    using res by (simp split: option.splits)
  then show ?thesis
    using run_function_from_outcome
            [OF assms(1) outcome_script_error [OF nt assms(3) assms(4) assms(5)]]
    by simp
qed

theorem guest_error_combined_witness:
  \<open>exec_example 0 ''{"error": "kaboom"}'' (''kaboom'' @ NL)
     = Inr (ok_outcome ''{"error": "kaboom"}'' (''kaboom'' @ NL))
   \<and> error (ok_outcome ''{"error": "kaboom"}'' (''kaboom'' @ NL)) = None
   \<and> stdout (ok_outcome ''{"error": "kaboom"}'' (''kaboom'' @ NL)) \<noteq> []
   \<and> loads example_lib (strip (stdout (ok_outcome ''{"error": "kaboom"}'' (''kaboom'' @ NL))))
       = Decoded (JObject [(''error'', JString ''kaboom'')])
   \<and> map_of [(''error'', JString ''kaboom'')] ''error'' = Some (JString ''kaboom'')
   \<and> run_example 0 ''{"error": "kaboom"}'' (''kaboom'' @ NL)
       = \<lparr>stdout = ''{"error": "kaboom"}'', stderr = ''kaboom'' @ NL, result = None,
          error = Some ''Script Error: kaboom''\<rparr>\<close>
proof -
  note f = ok_outcome_fields
  note ex = exec_example_ok [of \<open>''{"error": "kaboom"}''\<close> "''kaboom'' @ NL"]
  have n: \<open>stdout (ok_outcome ''{"error": "kaboom"}'' (''kaboom'' @ NL)) \<noteq> []\<close>
    by (simp add: f)
  have l: \<open>loads example_lib (strip (stdout (ok_outcome ''{"error": "kaboom"}'' (''kaboom'' @ NL))))
       = Decoded (JObject [(''error'', JString ''kaboom'')])\<close>
    by code_simp
  have m: "map_of [(''error'', JString ''kaboom'')] ''error'' = Some (JString ''kaboom'')"
    by simp
  have p: "py_in ''kaboom'' (''kaboom'' @ NL)"
    by code_simp
  from guest_error_combined [OF ex [unfolded exec_example_def] f(1) n l m, folded run_example_def]
  have \<open>run_example 0 ''{"error": "kaboom"}'' (''kaboom'' @ NL)
       = \<lparr>stdout = ''{"error": "kaboom"}'', stderr = ''kaboom'' @ NL, result = None,
          error = Some ''Script Error: kaboom''\<rparr>\<close>
    using p by (simp add: f)
  with ex f(1) n l m show ?thesis by (intro conjI)
qed

text \<open>
  The test of the code is whether the guest error occurs in stderr, not whether stderr
  occurs in the guest error: here stderr occurs in the guest error and is appended all the
  same.
\<close>

theorem substring_direction_counterexample:
  \<open>py_in ''boom'' ''kaboom''
   \<and> exec_example 0 ''{"error": "kaboom"}'' ''boom''
       = Inr \<lparr>stdout = ''{"error": "kaboom"}'', stderr = ''boom'', result = None, error = None\<rparr>
   \<and> run_example 0 ''{"error": "kaboom"}'' ''boom''
       = \<lparr>stdout = ''{"error": "kaboom"}'', stderr = ''boom'' @ NL @ ''kaboom'', result = None,
          error = Some (''Script Error: kaboom'' @ NL @ ''--- Runner Stderr ---'' @ NL
                        @ ''boom'')\<rparr>\<close>
  by code_simp

end
